theory Spec2Isabelle
  imports Complex_Main "HOL-Library.Word"
begin

unbundle bit_operations_syntax

section \<open>Errors and promises\<close>

text \<open>
  Every \<^verbatim>\<open>throw\<close> and every rejected promise of the TypeScript sources is a value
  \<open>Inl e\<close>; a resolved promise is \<open>Inr v\<close>. \<open>Rejected msg\<close> is
  \<^verbatim>\<open>Promise.reject('msg')\<close>; \<open>TypeError\<close> and \<open>RangeError\<close> are the exceptions
  of the JavaScript runtime itself.
\<close>

datatype error =
    NetworkError string
  | InvalidValueError
  | UnsupportedError
  | DecodeError
  | Rejected string
  | TypeError
  | RangeError

text \<open>\<^verbatim>\<open>const x = await p; k(x)\<close> inside an async function.\<close>

definition await :: "error + 'a \<Rightarrow> ('a \<Rightarrow> error + 'b) \<Rightarrow> error + 'b" where
  "await p k = (case p of Inl e \<Rightarrow> Inl e | Inr x \<Rightarrow> k x)"

text \<open>
  \<^verbatim>\<open>Promise.all(ps)\<close>: the list of all results, or a rejection as soon as one of the
  promises rejects (here: the first rejected one in list order).
\<close>

fun Promise_all :: "(error + 'a) list \<Rightarrow> error + 'a list" where
  "Promise_all [] = Inr []"
| "Promise_all (p # ps) =
     (case p of Inl e \<Rightarrow> Inl e
      | Inr x \<Rightarrow> (case Promise_all ps of Inl e \<Rightarrow> Inl e | Inr xs \<Rightarrow> Inr (x # xs)))"


section \<open>utils/array.ts\<close>

subsection \<open>JavaScript numbers\<close>

text \<open>
  \<^verbatim>\<open>chunkedArray\<close> computes its chunk indices with JavaScript numbers, which are IEEE 754
  binary64 values. \<open>Double m x\<close> is the non-negative number \<open>m * 2 ^ x\<close>. Only what
  \<^verbatim>\<open>chunkedArray\<close> needs is modelled: non-negative, normal, finite values, with the
  default rounding (to nearest, ties to even) to 53 significant bits.
\<close>

datatype double = Double int int

function bits :: "int \<Rightarrow> nat" where
  "bits n = (if n \<le> 0 then 0 else Suc (bits (n div 2)))"
  by pat_completeness auto
termination
  by (relation "measure nat") auto

declare bits.simps [simp del]

text \<open>
  \<open>round_ratio a b x\<close> is the binary64 value nearest to \<open>(a / b) * 2 ^ x\<close> for
  \<open>a \<ge> 0\<close> and \<open>b > 0\<close>: \<open>e\<close> is the exponent of the leading bit of \<open>a / b\<close>,
  the quotient is scaled to a 53-bit integer and rounded on the remainder.
\<close>

definition round_ratio :: "int \<Rightarrow> int \<Rightarrow> int \<Rightarrow> double" where
  "round_ratio a b x =
     (if a = 0 then Double 0 0
      else
        let k = int (bits a) - int (bits b);
            e = (if (if 0 \<le> k then 2 ^ nat k * b \<le> a else b \<le> a * 2 ^ nat (- k))
                 then k else k - 1);
            s = 52 - e;
            num = (if 0 \<le> s then a * 2 ^ nat s else a);
            den = (if 0 \<le> s then b else b * 2 ^ nat (- s));
            q = num div den;
            r = num mod den;
            m = (if 2 * r < den then q else if den < 2 * r then q + 1
                 else if even q then q else q + 1)
        in Double m (x - s))"

text \<open>An array length or index is an integer below \<open>2 ^ 53\<close>, hence exact.\<close>

definition double_of_nat :: "nat \<Rightarrow> double" where
  "double_of_nat n = Double (int n) 0"

text \<open>\<^verbatim>\<open>a / b\<close> on two positive integers.\<close>

definition double_div :: "nat \<Rightarrow> nat \<Rightarrow> double" where
  "double_div a b = round_ratio (int a) (int b) 0"

text \<open>\<^verbatim>\<open>a * b\<close>: the exact product, rounded.\<close>

fun double_mul :: "double \<Rightarrow> double \<Rightarrow> double" where
  "double_mul (Double m1 x1) (Double m2 x2) = round_ratio (m1 * m2) 1 (x1 + x2)"

fun Math_floor :: "double \<Rightarrow> nat" where
  "Math_floor (Double m x) =
     nat (if 0 \<le> x then m * 2 ^ nat x else m div 2 ^ nat (- x))"

fun Math_ceil :: "double \<Rightarrow> nat" where
  "Math_ceil (Double m x) =
     nat (if 0 \<le> x then m * 2 ^ nat x else - ((- m) div 2 ^ nat (- x)))"

subsection \<open>Arrays with holes\<close>

text \<open>
  \<^verbatim>\<open>new Array(n)\<close> is an array of \<open>n\<close> holes; \<open>None\<close> is a hole. Writing at an
  index beyond the end extends the array, the gap being holes.
\<close>

definition new_Array :: "nat \<Rightarrow> 'a option list" where
  "new_Array n = replicate n None"

definition array_set :: "'a option list \<Rightarrow> nat \<Rightarrow> 'a \<Rightarrow> 'a option list" where
  "array_set xs k v =
     (if k < length xs then xs[k := Some v]
      else xs @ replicate (k - length xs) None @ [Some v])"

text \<open>\<^verbatim>\<open>array.slice(i, j)\<close> for \<open>0 \<le> i \<le> j\<close>.\<close>

definition slice :: "'a list \<Rightarrow> nat \<Rightarrow> nat \<Rightarrow> 'a list" where
  "slice xs i j = take (j - i) (drop i xs)"

subsection \<open>chunkedArray and flattenArray\<close>

text \<open>
  The loop \<^verbatim>\<open>for (let i = 0; i < array.length; i += chunkSize)\<close> with body
  \<^verbatim>\<open>chunks[Math.floor(i * chunkSizeInverse)] = array.slice(i, i + chunkSize)\<close>.
\<close>

function chunkedArray_loop ::
  "'a list \<Rightarrow> nat \<Rightarrow> double \<Rightarrow> nat \<Rightarrow> 'a list option list \<Rightarrow> 'a list option list" where
  "chunkedArray_loop array chunkSize chunkSizeInverse i chunks =
     (if chunkSize = 0 then chunks
      else if i < length array then
        chunkedArray_loop array chunkSize chunkSizeInverse (i + chunkSize)
          (array_set chunks (Math_floor (double_mul (double_of_nat i) chunkSizeInverse))
             (slice array i (i + chunkSize)))
      else chunks)"
  by pat_completeness auto
termination
  by (relation "measure (\<lambda>(array, chunkSize, inv, i, chunks). length array - i)") auto

declare chunkedArray_loop.simps [simp del]

text \<open>
  With \<^verbatim>\<open>chunkSize = 0\<close> the inverse is \<^verbatim>\<open>Infinity\<close>, the requested array length is
  \<^verbatim>\<open>Infinity\<close> or \<^verbatim>\<open>NaN\<close>, and \<^verbatim>\<open>new Array\<close> throws a RangeError.
\<close>

definition chunkedArray :: "'a list \<Rightarrow> nat \<Rightarrow> error + 'a list option list" where
  "chunkedArray array chunkSize =
     (if chunkSize = 0 then Inl RangeError
      else
        let chunkSizeInverse = double_div 1 chunkSize;
            chunks = new_Array (Math_ceil (double_mul (double_of_nat (length array)) chunkSizeInverse))
        in Inr (chunkedArray_loop array chunkSize chunkSizeInverse 0 chunks))"

text \<open>
  \<^verbatim>\<open>array.reduce((flatten, next) => flatten.concat(next), [])\<close>; \<^verbatim>\<open>reduce\<close> does not
  call its function on a hole.
\<close>

definition flattenArray :: "'a list option list \<Rightarrow> 'a list" where
  "flattenArray array =
     foldl (\<lambda>flatten next. case next of None \<Rightarrow> flatten | Some c \<Rightarrow> flatten @ c) [] array"


section \<open>BigNumber\<close>

text \<open>
  The arbitrary-precision decimals of the bundled bignumber.js 9.0.0, which the
  controller uses for every amount. A value is a finite decimal, an infinity or NaN
  (the sign of a zero is not modelled; a zero divisor counts as positive, as the
  unsigned integers read from the chain are). Addition, subtraction and multiplication
  are exact. Division rounds its quotient to \<open>DECIMAL_PLACES\<close> decimal places in the
  rounding mode ROUND_HALF_UP (to nearest, a tie away from zero). The sources never change
  the library's configuration, so both are the library's defaults.
\<close>

datatype BigNumber = Fin rat | PInf | NInf | NaN

definition DECIMAL_PLACES :: nat where
  "DECIMAL_PLACES = 20"

definition round_half_up :: "rat \<Rightarrow> int" where
  "round_half_up x = (if 0 \<le> x then \<lfloor>x + 1 / 2\<rfloor> else - \<lfloor>- x + 1 / 2\<rfloor>)"

definition round_dp :: "nat \<Rightarrow> rat \<Rightarrow> rat" where
  "round_dp dp x = of_int (round_half_up (x * 10 ^ dp)) / 10 ^ dp"

fun sign_bn :: "BigNumber \<Rightarrow> int" where
  "sign_bn (Fin a) = (if a < 0 then - 1 else if a = 0 then 0 else 1)"
| "sign_bn PInf = 1"
| "sign_bn NInf = - 1"
| "sign_bn NaN = 0"

definition infinity_of_sign :: "int \<Rightarrow> BigNumber" where
  "infinity_of_sign s = (if s = 0 then NaN else if 0 < s then PInf else NInf)"

fun negated :: "BigNumber \<Rightarrow> BigNumber" where
  "negated (Fin a) = Fin (- a)"
| "negated PInf = NInf"
| "negated NInf = PInf"
| "negated NaN = NaN"

fun plus_bn :: "BigNumber \<Rightarrow> BigNumber \<Rightarrow> BigNumber" where
  "plus_bn NaN y = NaN"
| "plus_bn x NaN = NaN"
| "plus_bn (Fin a) (Fin b) = Fin (a + b)"
| "plus_bn PInf NInf = NaN"
| "plus_bn NInf PInf = NaN"
| "plus_bn PInf y = PInf"
| "plus_bn NInf y = NInf"
| "plus_bn x PInf = PInf"
| "plus_bn x NInf = NInf"

definition minus_bn :: "BigNumber \<Rightarrow> BigNumber \<Rightarrow> BigNumber" where
  "minus_bn x y = plus_bn x (negated y)"

fun multipliedBy :: "BigNumber \<Rightarrow> BigNumber \<Rightarrow> BigNumber" where
  "multipliedBy NaN y = NaN"
| "multipliedBy x NaN = NaN"
| "multipliedBy (Fin a) (Fin b) = Fin (a * b)"
| "multipliedBy x y = infinity_of_sign (sign_bn x * sign_bn y)"

fun dividedBy :: "BigNumber \<Rightarrow> BigNumber \<Rightarrow> BigNumber" where
  "dividedBy NaN y = NaN"
| "dividedBy x NaN = NaN"
| "dividedBy (Fin a) (Fin b) =
     (if b = 0 then infinity_of_sign (sign_bn (Fin a))
      else Fin (round_dp DECIMAL_PLACES (a / b)))"
| "dividedBy (Fin a) y = Fin 0"
| "dividedBy x (Fin b) = infinity_of_sign (sign_bn x * (if b < 0 then - 1 else 1))"
| "dividedBy x y = NaN"

text \<open>
  \<^verbatim>\<open>x.toFixed(0)\<close> prints \<open>x\<close> rounded to an integer in the same rounding mode; the
  model keeps the number that the string denotes.
\<close>

fun toFixed0 :: "BigNumber \<Rightarrow> BigNumber" where
  "toFixed0 (Fin a) = Fin (of_int (round_half_up a))"
| "toFixed0 x = x"

text \<open>\<open>q\<close> is a decimal with at most \<open>dp\<close> decimal places.\<close>

definition terminates_within :: "nat \<Rightarrow> rat \<Rightarrow> bool" where
  "terminates_within dp q = (of_int \<lfloor>q * 10 ^ dp\<rfloor> = q * 10 ^ dp)"

text \<open>An amount read from the chain is an unsigned integer.\<close>

definition bn :: "int \<Rightarrow> BigNumber" where
  "bn i = Fin (of_int i)"


section \<open>Chain data and the node client as the controller sees it\<close>

text \<open>
  An account is identified by its 32-byte public key, taken here as the number it
  encodes. \<^verbatim>\<open>SubstrateAddress.from\<close>, \<^verbatim>\<open>asAddress\<close> and \<^verbatim>\<open>getValue\<close> convert between
  encodings of the same key, so \<^verbatim>\<open>a.compare(b) === 0\<close> and \<^verbatim>\<open>===\<close> on two encoded
  addresses are equality of account ids. An account id handed to the controller is taken
  to be an encoded address, as the controller's own calls pass it; for a public key or
  an address object the tests \<^verbatim>\<open>target.asAddress() === validator\<close> and
  \<^verbatim>\<open>asAddress() === nominator.toString()\<close> compare two different strings of the same
  account, which the model leaves out.
\<close>

type_synonym SubstrateAccountId = nat

record SubstrateAccountData =
  free :: int
  reserved :: int
  miscFrozen :: int
  feeFrozen :: int

record SubstrateAccountInfo =
  data :: SubstrateAccountData

record SubstrateActiveEraInfo =
  index :: int
  start :: "int option"

record SubstrateNominations =
  targets :: "SubstrateAccountId list"
  submittedIn :: int

record SubstrateExposure =
  total :: int
  own :: int
  others :: "(SubstrateAccountId \<times> int) list"

record SubstrateEraRewardPoints =
  points_total :: int
  individual :: "(SubstrateAccountId \<times> int) list"

record SubstrateValidatorPrefs =
  commission :: int

datatype SubstrateElectionStatus = CLOSED | OPEN

text \<open>
  The controller reaches the chain through the methods of its node client only. Each
  field is the promise one method returns: rejected (\<open>Inl\<close>), or resolved with the
  decoded storage value, \<open>None\<close> being \<^verbatim>\<open>null\<close> (the node has no value).
  \<open>getElectionStatus\<close> gives the \<^verbatim>\<open>status.value\<close> of the decoded entry.
\<close>

record nodeClient =
  getAccountInfo :: "SubstrateAccountId \<Rightarrow> error + SubstrateAccountInfo option"
  getExistentialDeposit :: "error + int"
  getActiveEraInfo :: "error + SubstrateActiveEraInfo option"
  getNominations :: "SubstrateAccountId \<Rightarrow> error + SubstrateNominations option"
  getValidatorExposure :: "int \<Rightarrow> SubstrateAccountId \<Rightarrow> error + SubstrateExposure option"
  getValidatorReward :: "int \<Rightarrow> error + int option"
  getRewardPoints :: "int \<Rightarrow> error + SubstrateEraRewardPoints option"
  getValidatorPrefs :: "int \<Rightarrow> SubstrateAccountId \<Rightarrow> error + SubstrateValidatorPrefs option"
  getStakersClipped :: "int \<Rightarrow> SubstrateAccountId \<Rightarrow> error + SubstrateExposure option"
  getExpectedEraDuration :: "error + int option"
  getElectionStatus :: "error + SubstrateElectionStatus option"


section \<open>SubstrateAccountController\<close>

subsection \<open>Balances\<close>

definition getBalance :: "nodeClient \<Rightarrow> SubstrateAccountId \<Rightarrow> error + int" where
  "getBalance node accountId =
     await (getAccountInfo node accountId) (\<lambda>accountInfo.
       Inr (case accountInfo of None \<Rightarrow> 0 | Some info \<Rightarrow> free (data info)))"

text \<open>
  Both lookups are awaited together, before the account is looked at; the existential
  deposit is asked for only when it is to be excluded (\<open>None\<close> is the \<^verbatim>\<open>null\<close> put in its
  place). \<^verbatim>\<open>minBalance || 0\<close> is the deposit when there is one: a BigNumber is an object,
  hence truthy, whatever its value.
\<close>

definition getTransferableBalance ::
  "nodeClient \<Rightarrow> SubstrateAccountId \<Rightarrow> bool \<Rightarrow> bool \<Rightarrow> error + int" where
  "getTransferableBalance node accountId excludeExistentialDeposit ignoreFees =
     await (getAccountInfo node accountId) (\<lambda>accountInfo.
     await (if excludeExistentialDeposit
            then await (getExistentialDeposit node) (\<lambda>deposit. Inr (Some deposit))
            else Inr None) (\<lambda>minBalance.
       case accountInfo of
         None \<Rightarrow> Inr 0
       | Some info \<Rightarrow>
           let locked = (if ignoreFees then miscFrozen (data info) else feeFrozen (data info))
           in Inr (free (data info) - reserved (data info) - locked
                   - (case minBalance of None \<Rightarrow> 0 | Some deposit \<Rightarrow> deposit))))"

subsection \<open>Nomination status\<close>

datatype SubstrateNominationStatus = ACTIVE | INACTIVE | OVERSUBSCRIBED

text \<open>\<^verbatim>\<open>array.indexOf(v)\<close>: the first index of \<open>v\<close>, or \<open>-1\<close>.\<close>

fun indexOf :: "'a list \<Rightarrow> 'a \<Rightarrow> int" where
  "indexOf [] v = - 1"
| "indexOf (x # xs) v =
     (if x = v then 0 else (let i = indexOf xs v in if i < 0 then - 1 else i + 1))"

text \<open>
  \<^verbatim>\<open>elements.sort((a, b) => b.second.value.minus(a.second.value).toNumber())\<close>: a stable
  sort by stake, largest first.
\<close>

definition sort_by_stake :: "(SubstrateAccountId \<times> int) list \<Rightarrow> (SubstrateAccountId \<times> int) list" where
  "sort_by_stake elements = sort_key (\<lambda>element. - snd element) elements"

definition nominationStatusOf ::
  "SubstrateExposure \<Rightarrow> SubstrateAccountId \<Rightarrow> SubstrateNominationStatus" where
  "nominationStatusOf exposure nominator =
     (let isActive = list_ex (\<lambda>element. fst element = nominator) (others exposure)
      in if \<not> isActive then INACTIVE
         else
           let isOversubscribed = (256 < length (others exposure))
           in if isOversubscribed then
                (let position = indexOf (map fst (sort_by_stake (others exposure))) nominator
                 in if 256 < position then OVERSUBSCRIBED else ACTIVE)
              else ACTIVE)"

text \<open>The result \<open>Inr None\<close> is \<^verbatim>\<open>undefined\<close>: the nominator does not nominate the validator.\<close>

definition getNominationStatus ::
  "nodeClient \<Rightarrow> SubstrateAccountId \<Rightarrow> SubstrateAccountId \<Rightarrow> int option
     \<Rightarrow> error + SubstrateNominationStatus option" where
  "getNominationStatus node nominator validator era =
     await (case era of
              Some e \<Rightarrow> Inr (Some e)
            | None \<Rightarrow> await (getActiveEraInfo node) (\<lambda>activeEra. Inr (map_option index activeEra)))
       (\<lambda>eraIndex.
          case eraIndex of
            None \<Rightarrow> Inl (Rejected ''Could not fetch active era'')
          | Some eraIndex \<Rightarrow>
              await (getNominations node nominator) (\<lambda>nominations.
                case nominations of
                  None \<Rightarrow> Inr None
                | Some nominations \<Rightarrow>
                    if \<not> list_ex (\<lambda>target. target = validator) (targets nominations)
                    then Inr None
                    else
                      await (getValidatorExposure node eraIndex validator) (\<lambda>exposure.
                        case exposure of
                          None \<Rightarrow> Inr (Some INACTIVE)
                        | Some exposure \<Rightarrow> Inr (Some (nominationStatusOf exposure nominator)))))"

subsection \<open>Rewards\<close>

definition calculateValidatorReward :: "BigNumber \<Rightarrow> BigNumber \<Rightarrow> BigNumber \<Rightarrow> BigNumber" where
  "calculateValidatorReward totalReward totalPoints validatorPoints =
     multipliedBy (dividedBy validatorPoints totalPoints) totalReward"

definition calculateNominatorReward ::
  "BigNumber \<Rightarrow> BigNumber \<Rightarrow> BigNumber \<Rightarrow> BigNumber \<Rightarrow> BigNumber" where
  "calculateNominatorReward validatorReward validatorCommission totalStake nominatorStake =
     (let nominatorShare = dividedBy nominatorStake totalStake
      in multipliedBy
           (multipliedBy (minus_bn (Fin 1) (dividedBy validatorCommission (Fin 1000000000)))
              validatorReward)
           nominatorShare)"

text \<open>
  \<^verbatim>\<open>elements.find(e => e.first.address.compare(a) === 0)?.second?.value\<close> and
  \<^verbatim>\<open>elements.findIndex(...)\<close> (\<open>-1\<close> when there is none).
\<close>

definition find_value :: "(SubstrateAccountId \<times> int) list \<Rightarrow> SubstrateAccountId \<Rightarrow> int option" where
  "find_value elements a = map_option snd (find (\<lambda>element. fst element = a) elements)"

definition findIndex :: "(SubstrateAccountId \<times> int) list \<Rightarrow> SubstrateAccountId \<Rightarrow> int" where
  "findIndex elements a = indexOf (map fst elements) a"

record PartialRewardDetails =
  eraIndex :: int
  amount :: BigNumber
  exposures :: "(SubstrateAccountId \<times> int) list"

record SubstrateNominatorRewardDetails = PartialRewardDetails +
  timestamp :: int

text \<open>
  The reward of one nominated validator in the era, \<^verbatim>\<open>null\<close> unless the commission, the
  exposure, the validator's points and the nominator's stake are all there (each of them
  is an object or \<^verbatim>\<open>undefined\<close>/\<^verbatim>\<open>null\<close>, so the test is for presence, not for zero).
\<close>

definition partialReward ::
  "SubstrateAccountId \<Rightarrow> int \<Rightarrow> SubstrateEraRewardPoints
     \<Rightarrow> SubstrateAccountId \<times> int option \<times> SubstrateExposure option \<Rightarrow> BigNumber option" where
  "partialReward accountId reward rewardPoints entry =
     (case entry of (validator, validatorCommission, exposure) \<Rightarrow>
        let validatorPoints = find_value (individual rewardPoints) validator;
            nominatorStake = (case exposure of None \<Rightarrow> None
                              | Some e \<Rightarrow> find_value (others e) accountId)
        in case validatorCommission of None \<Rightarrow> None | Some c \<Rightarrow>
           case exposure of None \<Rightarrow> None | Some e \<Rightarrow>
           case validatorPoints of None \<Rightarrow> None | Some vp \<Rightarrow>
           case nominatorStake of None \<Rightarrow> None | Some ns \<Rightarrow>
             Some (calculateNominatorReward
                     (calculateValidatorReward (bn reward) (bn (points_total rewardPoints)) (bn vp))
                     (bn c) (bn (total e)) (bn ns)))"

definition fetchExposuresWithValidators ::
  "nodeClient \<Rightarrow> SubstrateAccountId list \<Rightarrow> int
     \<Rightarrow> error + (SubstrateAccountId \<times> int option \<times> SubstrateExposure option) list" where
  "fetchExposuresWithValidators node validators era =
     Promise_all (map (\<lambda>validator.
       await (getValidatorPrefs node era validator) (\<lambda>prefs.
       await (getStakersClipped node era validator) (\<lambda>exposure.
         Inr (validator, map_option commission prefs, exposure)))) validators)"

text \<open>The parameter \<open>era\<close> is the source's \<^verbatim>\<open>eraIndex\<close>.\<close>

definition calculateEraNominatorReward ::
  "nodeClient \<Rightarrow> SubstrateAccountId \<Rightarrow> SubstrateAccountId list \<Rightarrow> int
     \<Rightarrow> error + PartialRewardDetails option" where
  "calculateEraNominatorReward node accountId validators era =
     await (getValidatorReward node era) (\<lambda>reward.
     await (getRewardPoints node era) (\<lambda>rewardPoints.
     await (fetchExposuresWithValidators node validators era) (\<lambda>exposuresWithValidators.
       case reward of None \<Rightarrow> Inr None | Some reward \<Rightarrow>
       case rewardPoints of None \<Rightarrow> Inr None | Some rewardPoints \<Rightarrow>
         let partialRewards =
               filter (\<lambda>reward. reward \<noteq> None)
                 (map (partialReward accountId reward rewardPoints) exposuresWithValidators)
         in if list_all (\<lambda>reward. reward = None) partialRewards then Inr None
            else Inr (Some \<lparr>
              eraIndex = era,
              amount = toFixed0 (foldl (\<lambda>sum next. case next of None \<Rightarrow> sum
                                                  | Some r \<Rightarrow> plus_bn sum r) (Fin 0) partialRewards),
              exposures = List.map_filter (\<lambda>(validator, c, exposure).
                  map_option (\<lambda>e. (validator, findIndex (others e) accountId)) exposure)
                exposuresWithValidators \<rparr>))))"

text \<open>
  \<open>eras\<close> is a number of eras before the active one (\<open>Inl n\<close>) or a list of era
  indices (\<open>Inr\<close>). \<^verbatim>\<open>partial.eraIndex || activeEra.index.toNumber()\<close> takes the active
  era for era \<open>0\<close>. The timestamp is the integer computed, which the closing
  \<^verbatim>\<open>toNumber()\<close> leaves as it is below \<open>2 ^ 53\<close>; a larger one would be rounded.
\<close>

definition with_timestamp ::
  "SubstrateActiveEraInfo \<Rightarrow> int \<Rightarrow> PartialRewardDetails \<Rightarrow> SubstrateNominatorRewardDetails" where
  "with_timestamp activeEra expectedEraDuration partial =
     (let rewardEra = (if eraIndex partial = 0 then index activeEra else eraIndex partial);
          erasPassed = index activeEra - rewardEra
      in \<lparr>eraIndex = eraIndex partial, amount = amount partial, exposures = exposures partial,
          timestamp = (case start activeEra of
                         None \<Rightarrow> 0
                       | Some s \<Rightarrow> s - expectedEraDuration * (erasPassed - 1))\<rparr>)"

definition eraIndices :: "SubstrateActiveEraInfo \<Rightarrow> nat + int list \<Rightarrow> int list" where
  "eraIndices activeEra eras =
     (case eras of
        Inr list \<Rightarrow> list
      | Inl n \<Rightarrow> map (\<lambda>i. index activeEra - 1 - int i) [0..<n])"

definition getNominatorRewards ::
  "nodeClient \<Rightarrow> SubstrateAccountId \<Rightarrow> SubstrateAccountId list \<Rightarrow> SubstrateActiveEraInfo
     \<Rightarrow> nat + int list \<Rightarrow> error + SubstrateNominatorRewardDetails list" where
  "getNominatorRewards node accountId validators activeEra eras =
     await (getExpectedEraDuration node) (\<lambda>expectedEraDuration.
       case expectedEraDuration of
         None \<Rightarrow> Inl (Rejected ''Could not fetch all necessary data.'')
       | Some expectedEraDuration \<Rightarrow>
           await (Promise_all (map (\<lambda>era.
                    await (calculateEraNominatorReward node accountId validators era) (\<lambda>partial.
                      Inr (map_option (with_timestamp activeEra expectedEraDuration) partial)))
                    (eraIndices activeEra eras)))
             (\<lambda>rewards. Inr (List.map_filter id rewards)))"

text \<open>
  The data of one nominated validator is complete for an era when the node has its
  preferences and its clipped exposure for the era, its points are listed in the era's
  reward points, and the nominator's stake is listed in the exposure. An era is complete
  when the node has its reward pool and its reward points and the data of at least one
  of the nominated validators is complete.
\<close>

definition validatorComplete ::
  "nodeClient \<Rightarrow> SubstrateAccountId \<Rightarrow> int \<Rightarrow> SubstrateAccountId \<Rightarrow> bool" where
  "validatorComplete node accountId era validator =
     (case getValidatorPrefs node era validator of
        Inr (Some prefs) \<Rightarrow>
          (case getStakersClipped node era validator of
             Inr (Some exposure) \<Rightarrow>
               (case getRewardPoints node era of
                  Inr (Some rewardPoints) \<Rightarrow>
                    find_value (individual rewardPoints) validator \<noteq> None
                    \<and> find_value (others exposure) accountId \<noteq> None
                | _ \<Rightarrow> False)
           | _ \<Rightarrow> False)
      | _ \<Rightarrow> False)"

definition eraComplete ::
  "nodeClient \<Rightarrow> SubstrateAccountId \<Rightarrow> SubstrateAccountId list \<Rightarrow> int \<Rightarrow> bool" where
  "eraComplete node accountId validators era =
     (case getValidatorReward node era of
        Inr (Some reward) \<Rightarrow>
          (case getRewardPoints node era of
             Inr (Some rewardPoints) \<Rightarrow> list_ex (validatorComplete node accountId era) validators
           | _ \<Rightarrow> False)
      | _ \<Rightarrow> False)"

text \<open>
  What a nominated validator with complete data contributes to the nominator's reward
  of an era, and the amount of an era: the contributions of the nominated validators
  with complete data, and of no other, added up in the order of nomination and rounded
  to an integer.
\<close>

definition validatorShare ::
  "nodeClient \<Rightarrow> SubstrateAccountId \<Rightarrow> int \<Rightarrow> SubstrateAccountId \<Rightarrow> BigNumber" where
  "validatorShare node accountId era validator =
     (case getValidatorReward node era of
        Inr (Some reward) \<Rightarrow>
          (case getRewardPoints node era of
             Inr (Some rewardPoints) \<Rightarrow>
               (case getValidatorPrefs node era validator of
                  Inr (Some prefs) \<Rightarrow>
                    (case getStakersClipped node era validator of
                       Inr (Some exposure) \<Rightarrow>
                         (case find_value (individual rewardPoints) validator of
                            Some vp \<Rightarrow>
                              (case find_value (others exposure) accountId of
                                 Some ns \<Rightarrow>
                                   calculateNominatorReward
                                     (calculateValidatorReward (bn reward)
                                        (bn (points_total rewardPoints)) (bn vp))
                                     (bn (commission prefs)) (bn (total exposure)) (bn ns)
                               | None \<Rightarrow> Fin 0)
                          | None \<Rightarrow> Fin 0)
                     | _ \<Rightarrow> Fin 0)
                | _ \<Rightarrow> Fin 0)
           | _ \<Rightarrow> Fin 0)
      | _ \<Rightarrow> Fin 0)"

definition eraAmount ::
  "nodeClient \<Rightarrow> SubstrateAccountId \<Rightarrow> SubstrateAccountId list \<Rightarrow> int \<Rightarrow> BigNumber" where
  "eraAmount node accountId validators era =
     toFixed0 (foldl plus_bn (Fin 0)
       (map (validatorShare node accountId era)
          (filter (validatorComplete node accountId era) validators)))"

subsection \<open>Available staking actions\<close>

datatype SubstrateStakingActionType =
    BOND_NOMINATE | REBOND_NOMINATE | NOMINATE | CANCEL_NOMINATION | CHANGE_NOMINATION
  | UNBOND | REBOND | BOND_EXTRA | REBOND_EXTRA | WITHDRAW_UNBONDED
  | CHANGE_REWARD_DESTINATION | CHANGE_CONTROLLER

record DelegatorAction =
  action_type :: SubstrateStakingActionType
  args :: "string list"

text \<open>
  What \<^verbatim>\<open>getAvailableStakingActions\<close> reads of the staking details: the active and the
  unlocked amount (decimal strings of integers, here the integers) and the list of
  locked entries (value, expected unlock).
\<close>

record SubstrateStakingDetails =
  active :: int
  locked :: "(int \<times> int) list"
  unlocked :: int

text \<open>
  The numeric values of the enum \<^verbatim>\<open>SubstrateStakingActionType\<close>, by which the result is
  sorted, are declared outside the sources at hand: \<open>ordinal\<close> is a parameter.
\<close>

definition getAvailableStakingActions ::
  "(SubstrateStakingActionType \<Rightarrow> int) \<Rightarrow> nodeClient \<Rightarrow> SubstrateStakingDetails option
     \<Rightarrow> SubstrateNominations option \<Rightarrow> SubstrateAccountId list \<Rightarrow> int
     \<Rightarrow> error + DelegatorAction list" where
  "getAvailableStakingActions ordinal node stakingDetails nominations validatorIds maxDelegationValue =
     (let currentValidators = (case nominations of None \<Rightarrow> [] | Some n \<Rightarrow> targets n);
          validatorAddresses = validatorIds;
          isBonded = (0 < (case stakingDetails of None \<Rightarrow> 0 | Some d \<Rightarrow> active d));
          isDelegating = (nominations \<noteq> None);
          isUnbonding = (case stakingDetails of None \<Rightarrow> False | Some d \<Rightarrow> 0 < length (locked d))
      in
      await (getExistentialDeposit node) (\<lambda>minBondingValue.
      let minDelegationValue = 1 in
      await (getElectionStatus node) (\<lambda>electionStatus.
      let isElectionClosed = (electionStatus \<noteq> Some OPEN);
          hasFundsToWithdraw = (0 < (case stakingDetails of None \<Rightarrow> 0 | Some d \<Rightarrow> unlocked d));
          availableActions =
            (if minBondingValue < maxDelegationValue \<and> \<not> isBonded \<and> \<not> isUnbonding \<and> isElectionClosed
             then [\<lparr>action_type = BOND_NOMINATE,
                     args = [''targets'', ''controller'', ''value'', ''payee'']\<rparr>]
             else []) @
            (if minDelegationValue < maxDelegationValue \<and> isBonded \<and> \<not> isUnbonding \<and> isElectionClosed
             then [\<lparr>action_type = BOND_EXTRA, args = [''value'']\<rparr>]
             else []) @
            (if isBonded \<and> \<not> isDelegating \<and> \<not> isUnbonding \<and> isElectionClosed
             then [\<lparr>action_type = NOMINATE, args = [''targets'']\<rparr>,
                   \<lparr>action_type = UNBOND, args = [''value'']\<rparr>]
             else []) @
            (if isUnbonding \<and> \<not> isDelegating \<and> isElectionClosed
             then [\<lparr>action_type = REBOND_NOMINATE, args = [''targets'', ''value'']\<rparr>]
             else []) @
            (if isUnbonding \<and> isDelegating \<and> isElectionClosed
             then [\<lparr>action_type = REBOND_EXTRA, args = [''value'']\<rparr>]
             else []) @
            (if isDelegating \<and> isElectionClosed
             then (if list_all (\<lambda>validator. validator \<in> set currentValidators) validatorAddresses
                      \<and> length validatorAddresses = length currentValidators
                   then [\<lparr>action_type = CANCEL_NOMINATION, args = [''value'']\<rparr>]
                   else if 0 < length validatorAddresses
                   then [\<lparr>action_type = CHANGE_NOMINATION, args = [''targets'']\<rparr>]
                   else [])
             else []) @
            (if hasFundsToWithdraw \<and> isElectionClosed
             then [\<lparr>action_type = WITHDRAW_UNBONDED, args = []\<rparr>]
             else [])
      in Inr (sort_key (\<lambda>a. ordinal (action_type a)) availableActions))))"


section \<open>The earlier Polkadot client\<close>

text \<open>
  \<^verbatim>\<open>PolkadotNodeClient\<close> (protocols/polkadot) is the earlier client of the same chain.
  Its storage reads are fields as above; the validator preferences are read without an
  era, and the staking ledger gives the era of the last collected reward, if any.
\<close>

record PolkadotStakingLedger =
  lastReward :: "int option"

record PolkadotNodeClient =
  polkadot_getAccountInfo :: "SubstrateAccountId \<Rightarrow> error + SubstrateAccountInfo option"
  polkadot_getValidatorReward :: "int \<Rightarrow> error + int option"
  polkadot_getRewardPoints :: "int \<Rightarrow> error + SubstrateEraRewardPoints option"
  polkadot_getValidatorPrefs :: "SubstrateAccountId \<Rightarrow> error + SubstrateValidatorPrefs option"
  polkadot_getStakersClipped :: "int \<Rightarrow> SubstrateAccountId \<Rightarrow> error + SubstrateExposure option"
  polkadot_getLedger :: "SubstrateAccountId \<Rightarrow> error + PolkadotStakingLedger option"

definition polkadot_getBalance :: "PolkadotNodeClient \<Rightarrow> SubstrateAccountId \<Rightarrow> error + int" where
  "polkadot_getBalance node address =
     await (polkadot_getAccountInfo node address) (\<lambda>accountInfo.
       Inr (case accountInfo of None \<Rightarrow> 0 | Some info \<Rightarrow> free (data info)))"

record PolkadotReward =
  reward_eraIndex :: int
  reward_amount :: BigNumber
  reward_exposures :: "(SubstrateAccountId \<times> int) list"
  reward_timestamp :: int
  collected :: bool

text \<open>
  The share of one validator in the era's total: zero when the commission or the
  exposure is missing, and computed from zero points or a zero stake when the validator
  or the nominator is not listed.
\<close>

definition polkadot_validatorShare ::
  "SubstrateAccountId \<Rightarrow> int \<Rightarrow> SubstrateEraRewardPoints
     \<Rightarrow> SubstrateAccountId \<times> int option \<times> SubstrateExposure option \<Rightarrow> BigNumber" where
  "polkadot_validatorShare address reward rewardPoints exposureWithValidator =
     (case exposureWithValidator of (validator, validatorCommission, exposure) \<Rightarrow>
        case validatorCommission of None \<Rightarrow> Fin 0 | Some c \<Rightarrow>
        case exposure of None \<Rightarrow> Fin 0 | Some e \<Rightarrow>
          let validatorReward =
                (case find_value (individual rewardPoints) validator of
                   None \<Rightarrow> Fin 0
                 | Some vp \<Rightarrow> multipliedBy (dividedBy (bn vp) (bn (points_total rewardPoints)))
                               (bn reward));
              nominatorStake = (case find_value (others e) address of
                                  None \<Rightarrow> Fin 0 | Some ns \<Rightarrow> bn ns);
              nominatorShare = dividedBy nominatorStake (bn (total e))
          in multipliedBy
               (multipliedBy (minus_bn (Fin 1) (dividedBy (bn c) (Fin 1000000000))) validatorReward)
               nominatorShare)"

definition polkadot_eraReward ::
  "PolkadotNodeClient \<Rightarrow> SubstrateAccountId \<Rightarrow> SubstrateAccountId list \<Rightarrow> int
     \<Rightarrow> error + PolkadotReward option" where
  "polkadot_eraReward node address validators era =
     await (polkadot_getValidatorReward node era) (\<lambda>reward.
     await (polkadot_getRewardPoints node era) (\<lambda>rewardPoints.
     await (Promise_all (map (\<lambda>validator.
              await (polkadot_getValidatorPrefs node validator) (\<lambda>prefs.
              await (polkadot_getStakersClipped node era validator) (\<lambda>exposure.
                Inr (validator, map_option commission prefs, exposure)))) validators))
       (\<lambda>exposuresWithValidators.
     await (polkadot_getLedger node address) (\<lambda>stakingLedger.
       case reward of None \<Rightarrow> Inr None | Some reward \<Rightarrow>
       case rewardPoints of None \<Rightarrow> Inr None | Some rewardPoints \<Rightarrow>
       case stakingLedger of None \<Rightarrow> Inr None | Some stakingLedger \<Rightarrow>
         Inr (Some \<lparr>
           reward_eraIndex = era,
           reward_amount = foldl plus_bn (Fin 0)
             (map (polkadot_validatorShare address reward rewardPoints) exposuresWithValidators),
           reward_exposures = List.map_filter (\<lambda>(validator, c, exposure).
               map_option (\<lambda>e. (validator, findIndex (others e) address)) exposure)
             exposuresWithValidators,
           reward_timestamp = 0,
           collected = (case lastReward stakingLedger of None \<Rightarrow> False
                        | Some l \<Rightarrow> era \<le> l) \<rparr>)))))"

text \<open>The loop over the eras, one after the other, pushing onto \<open>rewards\<close>.\<close>

fun getRewards_loop ::
  "PolkadotNodeClient \<Rightarrow> SubstrateAccountId \<Rightarrow> SubstrateAccountId list \<Rightarrow> int list
     \<Rightarrow> PolkadotReward list \<Rightarrow> error + PolkadotReward list" where
  "getRewards_loop node address validators [] rewards = Inr rewards"
| "getRewards_loop node address validators (era # eras) rewards =
     await (polkadot_eraReward node address validators era) (\<lambda>r.
       getRewards_loop node address validators eras
         (case r of None \<Rightarrow> rewards | Some entry \<Rightarrow> rewards @ [entry]))"

definition getRewards ::
  "PolkadotNodeClient \<Rightarrow> SubstrateAccountId \<Rightarrow> SubstrateAccountId list \<Rightarrow> int \<Rightarrow> nat
     \<Rightarrow> error + PolkadotReward list" where
  "getRewards node address validators currentEra limit =
     await (getRewards_loop node address validators
              (map (\<lambda>i. currentEra - 1 - int i) [0..<limit]) [])
       (\<lambda>rewards. Inr (sort_key (\<lambda>r. - reward_eraIndex r) rewards))"


section \<open>Balance of several addresses\<close>

text \<open>
  \<^verbatim>\<open>balances.reduce((current, next) => current.plus(next))\<close>: without an initial value,
  \<^verbatim>\<open>reduce\<close> starts from the first element and throws a TypeError on an empty array.
\<close>

definition reduce :: "('a \<Rightarrow> 'a \<Rightarrow> 'a) \<Rightarrow> 'a list \<Rightarrow> error + 'a" where
  "reduce f xs = (case xs of [] \<Rightarrow> Inl TypeError | x # rest \<Rightarrow> Inr (foldl f x rest))"

text \<open>\<^verbatim>\<open>balance.toString(10)\<close> of an integer: its decimal digits, after a minus sign if negative.\<close>

function digits10 :: "int \<Rightarrow> string" where
  "digits10 n =
     (if n < 10 then [''0123456789'' ! nat n]
      else digits10 (n div 10) @ [''0123456789'' ! nat (n mod 10)])"
  by pat_completeness auto
termination
  by (relation "measure nat") auto

declare digits10.simps [simp del]

definition toString10 :: "int \<Rightarrow> string" where
  "toString10 n = (if n < 0 then CHR ''-'' # digits10 (- n) else digits10 n)"

text \<open>\<^verbatim>\<open>SubstrateProtocol.getBalanceOfAddresses\<close>, on the controller's \<^verbatim>\<open>getBalance\<close>.\<close>

definition getBalanceOfAddresses :: "nodeClient \<Rightarrow> SubstrateAccountId list \<Rightarrow> error + string" where
  "getBalanceOfAddresses node addresses =
     await (Promise_all (map (getBalance node) addresses)) (\<lambda>balances.
     await (reduce (\<lambda>current next. current + next) balances) (\<lambda>balance.
       Inr (toString10 balance)))"

text \<open>
  \<^verbatim>\<open>PolkadotProtocol.getBalanceOfAddresses\<close>, on the earlier client; \<^verbatim>\<open>decodeAddress\<close>
  gives the account id of an address.
\<close>

definition polkadot_getBalanceOfAddresses ::
  "PolkadotNodeClient \<Rightarrow> SubstrateAccountId list \<Rightarrow> error + string" where
  "polkadot_getBalanceOfAddresses node addresses =
     await (Promise_all (map (polkadot_getBalance node) addresses)) (\<lambda>balances.
     await (reduce (\<lambda>current next. current + next) balances) (\<lambda>balance.
       Inr (toString10 balance)))"


section \<open>Metadata\<close>

type_synonym byte = "8 word"

text \<open>
  Modelled from the spec: the class \<^verbatim>\<open>SCALEDecoder\<close> is not among the sources. By
  section 4.1 of the specification an integer is little-endian and of the declared bit
  size, and reading past the end of the buffer fails with a decode error. A decoder is
  the list of the bytes not yet read; \<open>decodeNextInt\<close> gives the number and the decoder
  after it.
\<close>

fun le_nat :: "byte list \<Rightarrow> nat" where
  "le_nat [] = 0"
| "le_nat (b # bs) = unat b + 256 * le_nat bs"

definition decodeNextInt :: "nat \<Rightarrow> byte list \<Rightarrow> error + nat \<times> byte list" where
  "decodeNextInt bitLength decoder =
     (let n = bitLength div 8
      in if length decoder < n then Inl DecodeError
         else Inr (le_nat (take n decoder), drop n decoder))"

text \<open>\<^verbatim>\<open>parseInt('6174656d', 16)\<close>\<close>

definition MAGIC_NUMBER :: nat where
  "MAGIC_NUMBER = 0x6174656d"

definition assertMagicNumber :: "nat \<Rightarrow> error + unit" where
  "assertMagicNumber magicNumber =
     (if magicNumber \<noteq> MAGIC_NUMBER then Inl InvalidValueError else Inr ())"

text \<open>
  The parsers of the two schema versions, \<^verbatim>\<open>MetadataV11.decode\<close> and
  \<^verbatim>\<open>MetadataV12.decode\<close>, are not among the sources; they are parameters, and so is the
  lookup of a constant in the decorated metadata (its value as a number). Each parser
  gets the whole blob.
\<close>

record 'v metadata_parsers =
  decodeV11 :: "byte list \<Rightarrow> error + 'v"
  decodeV12 :: "byte list \<Rightarrow> error + 'v"
  lookupConstant :: "'v \<Rightarrow> string \<Rightarrow> string \<Rightarrow> nat option"

datatype 'v Metadata = Metadata (versioned: 'v)

definition Metadata_decode :: "'v metadata_parsers \<Rightarrow> byte list \<Rightarrow> error + 'v Metadata" where
  "Metadata_decode parsers raw =
     await (decodeNextInt 32 raw) (\<lambda>(magicNumber, decoder).
     await (assertMagicNumber magicNumber) (\<lambda>u.
     await (decodeNextInt 8 decoder) (\<lambda>(version, decoder).
     await (if version = 12 then decodeV12 parsers raw
            else if version = 11 then decodeV11 parsers raw
            else Inl UnsupportedError) (\<lambda>versioned.
       Inr (Metadata versioned)))))"

text \<open>The ASCII bytes of \<open>meta\<close>.\<close>

definition magic_marker :: "byte list" where
  "magic_marker = map of_char ''meta''"


section \<open>SubstrateNodeClient: lazy initialization\<close>

text \<open>
  The state of a promise once the event loop has run dry. \<open>initApiPromise\<close> is the
  client's field of that name (\<open>None\<close> is \<^verbatim>\<open>null\<close>). \<open>initAttempts\<close> is not a field of the
  client: it counts how often the initialization has been started, that is, how often
  the metadata and the runtime version have been requested from the node.
\<close>

datatype promise = Pending | Resolved | RejectedWith error

record 'v SubstrateNodeClient =
  initApiPromise :: "promise option"
  metadata :: "'v Metadata option"
  runtimeVersion :: "nat option"
  expirationTime :: nat
  initAttempts :: nat

text \<open>
  What the node answers to \<^verbatim>\<open>state_getMetadata\<close> and \<^verbatim>\<open>state_getRuntimeVersion\<close> at
  the time of a call (the response cache, which is not among the sources, is left out).
\<close>

record rpc =
  state_getMetadata :: "error + byte list"
  state_getRuntimeVersion :: "error + nat"

text \<open>What a caller that awaits a promise sees: it never settles, or it settles.\<close>

datatype 'a outcome = NeverSettles | Settles "error + 'a"

definition new_client :: "'v SubstrateNodeClient" where
  "new_client = \<lparr>initApiPromise = None, metadata = None, runtimeVersion = None,
                  expirationTime = 3000, initAttempts = 0\<rparr>"

text \<open>
  \<^verbatim>\<open>initApi\<close>, run until nothing is left to do. With \<^verbatim>\<open>initApiPromise\<close> set, that
  promise is returned. Otherwise the executor starts:
  \<^item> if the metadata request rejects, the \<^verbatim>\<open>await\<close> in the async executor throws, neither
    \<^verbatim>\<open>resolve\<close> nor \<^verbatim>\<open>reject\<close> is called, and the stored promise stays pending;
  \<^item> \<^verbatim>\<open>getRuntimeVersion\<close> turns a rejection into \<^verbatim>\<open>null\<close>; then \<^verbatim>\<open>reject\<close> is called, the
    executor goes on to decode and store the metadata, the \<^verbatim>\<open>catch\<close> handler stores the
    rejected promise in \<^verbatim>\<open>initApiPromise\<close>, and the promise handed to this caller, the
    one made by \<^verbatim>\<open>catch\<close>, resolves;
  \<^item> if decoding throws after a runtime version was read, the promise stays pending as well;
  \<^item> otherwise \<^verbatim>\<open>then\<close> stores a resolved promise and runs \<^verbatim>\<open>initCache\<close>, which reads
    the constant \<^verbatim>\<open>Babe.ExpectedBlockTime\<close>; if there is none, the rejection is handled
    by the same \<^verbatim>\<open>catch\<close> handler.
\<close>

definition initApi ::
  "'v metadata_parsers \<Rightarrow> rpc \<Rightarrow> 'v SubstrateNodeClient \<Rightarrow> unit outcome \<times> 'v SubstrateNodeClient" where
  "initApi parsers node c =
     (case initApiPromise c of
        Some Pending \<Rightarrow> (NeverSettles, c)
      | Some Resolved \<Rightarrow> (Settles (Inr ()), c)
      | Some (RejectedWith e) \<Rightarrow> (Settles (Inl e), c)
      | None \<Rightarrow>
          let c = c\<lparr>initAttempts := initAttempts c + 1\<rparr> in
          case state_getMetadata node of
            Inl e \<Rightarrow> (NeverSettles, c\<lparr>initApiPromise := Some Pending\<rparr>)
          | Inr metadataEncoded \<Rightarrow>
              (case (case state_getRuntimeVersion node of Inl e \<Rightarrow> None | Inr v \<Rightarrow> Some v) of
                 None \<Rightarrow>
                   let c = (case Metadata_decode parsers metadataEncoded of
                              Inl e \<Rightarrow> c
                            | Inr m \<Rightarrow> c\<lparr>metadata := Some m, runtimeVersion := None\<rparr>)
                   in (Settles (Inr ()),
                       c\<lparr>initApiPromise := Some (RejectedWith
                            (Rejected ''Could not fetch runtime version from the node''))\<rparr>)
               | Some specVersion \<Rightarrow>
                   (case Metadata_decode parsers metadataEncoded of
                      Inl e \<Rightarrow> (NeverSettles, c\<lparr>initApiPromise := Some Pending\<rparr>)
                    | Inr m \<Rightarrow>
                        let c = c\<lparr>metadata := Some m, runtimeVersion := Some specVersion,
                                  initApiPromise := Some Resolved\<rparr>
                        in case lookupConstant parsers (versioned m) ''Babe'' ''ExpectedBlockTime'' of
                             Some blockTime \<Rightarrow>
                               (Settles (Inr ()), c\<lparr>expirationTime := blockTime div 3\<rparr>)
                           | None \<Rightarrow>
                               (Settles (Inr ()),
                                c\<lparr>initApiPromise := Some (RejectedWith (Rejected
                                  ''Could not find requested item: Babe ExpectedBlockTime''))\<rparr>))))"

text \<open>
  \<^verbatim>\<open>getConstant\<close> and, on it, the public \<^verbatim>\<open>getExistentialDeposit\<close>: a call that needs
  the initialization.
\<close>

definition getConstant ::
  "'v metadata_parsers \<Rightarrow> rpc \<Rightarrow> 'v SubstrateNodeClient \<Rightarrow> string \<Rightarrow> string
     \<Rightarrow> nat outcome \<times> 'v SubstrateNodeClient" where
  "getConstant parsers node c moduleName constantName =
     (case initApi parsers node c of
        (NeverSettles, c) \<Rightarrow> (NeverSettles, c)
      | (Settles (Inl e), c) \<Rightarrow> (Settles (Inl e), c)
      | (Settles (Inr u), c) \<Rightarrow>
          (case (case metadata c of None \<Rightarrow> None
                 | Some m \<Rightarrow> lookupConstant parsers (versioned m) moduleName constantName) of
             Some v \<Rightarrow> (Settles (Inr v), c)
           | None \<Rightarrow> (Settles (Inl (Rejected
               (''Could not find requested item: '' @ moduleName @ '' '' @ constantName))), c)))"

definition client_getExistentialDeposit ::
  "'v metadata_parsers \<Rightarrow> rpc \<Rightarrow> 'v SubstrateNodeClient \<Rightarrow> nat outcome \<times> 'v SubstrateNodeClient" where
  "client_getExistentialDeposit parsers node c =
     getConstant parsers node c ''Balances'' ''ExistentialDeposit''"


section \<open>Example chain states\<close>

text \<open>A node that answers every query and has no value for any storage entry.\<close>

definition quiet_node :: nodeClient where
  "quiet_node = \<lparr>
     getAccountInfo = (\<lambda>a. Inr None),
     getExistentialDeposit = Inr 1,
     getActiveEraInfo = Inr None,
     getNominations = (\<lambda>a. Inr None),
     getValidatorExposure = (\<lambda>e v. Inr None),
     getValidatorReward = (\<lambda>e. Inr None),
     getRewardPoints = (\<lambda>e. Inr None),
     getValidatorPrefs = (\<lambda>e v. Inr None),
     getStakersClipped = (\<lambda>e v. Inr None),
     getExpectedEraDuration = Inr None,
     getElectionStatus = Inr None \<rparr>"

text \<open>The account of the balance example: free 1000, nothing reserved or frozen.\<close>

definition account_1000 :: SubstrateAccountInfo where
  "account_1000 = \<lparr>data = \<lparr>free = 1000, reserved = 0, miscFrozen = 0, feeFrozen = 0\<rparr>\<rparr>"

definition node_1000 :: nodeClient where
  "node_1000 = quiet_node\<lparr>getAccountInfo := (\<lambda>a. Inr (Some account_1000)),
                           getExistentialDeposit := Inr 1\<rparr>"

text \<open>An overdrawn account: free 10, reserved 20, 5 frozen for fees.\<close>

definition account_overdrawn :: SubstrateAccountInfo where
  "account_overdrawn = \<lparr>data = \<lparr>free = 10, reserved = 20, miscFrozen = 0, feeFrozen = 5\<rparr>\<rparr>"

definition node_overdrawn :: nodeClient where
  "node_overdrawn = quiet_node\<lparr>getAccountInfo := (\<lambda>a. Inr (Some account_overdrawn))\<rparr>"


text \<open>
  A validator (account 1000) with 300 nominators, accounts 0 to 299, account \<open>i\<close>
  staking \<open>300 - i\<close>: account \<open>i\<close> is ranked \<open>i + 1\<close> by stake. Every nominator
  nominates the validator.
\<close>

definition exposure_300 :: SubstrateExposure where
  "exposure_300 = \<lparr>total = 45150, own = 0,
                    others = map (\<lambda>i. (i, 300 - int i)) [0..<300]\<rparr>"

definition node_300 :: nodeClient where
  "node_300 = quiet_node\<lparr>
     getNominations := (\<lambda>a. Inr (Some \<lparr>targets = [1000], submittedIn = 1\<rparr>)),
     getValidatorExposure := (\<lambda>e v. if v = 1000 then Inr (Some exposure_300) else Inr None)\<rparr>"

text \<open>
  Era 5 with reward pool 1000 and 50 of 100 points for each of the validators 11 and 12,
  both without commission. Validator 11 has an exposure of 1000, 500 of it from
  nominator 7; the node has no exposure for validator 12. No other era has a reward pool.
\<close>

definition node_two_validators :: nodeClient where
  "node_two_validators = quiet_node\<lparr>
     getValidatorReward := (\<lambda>e. if e = 5 then Inr (Some 1000) else Inr None),
     getRewardPoints := (\<lambda>e. if e = 5
        then Inr (Some \<lparr>points_total = 100, individual = [(11, 50), (12, 50)]\<rparr>) else Inr None),
     getValidatorPrefs := (\<lambda>e v. Inr (Some \<lparr>commission = 0\<rparr>)),
     getStakersClipped := (\<lambda>e v. if e = 5 \<and> v = 11
        then Inr (Some \<lparr>total = 1000, own = 0, others = [(7, 500)]\<rparr>) else Inr None),
     getExpectedEraDuration := Inr (Some 100)\<rparr>"

definition active_era_6 :: SubstrateActiveEraInfo where
  "active_era_6 = \<lparr>index = 6, start = Some 1000\<rparr>"


text \<open>
  The earlier client on a chain where every account has a free balance of 1000, era 5
  has a reward pool of 1000 and validator 11 has 50 of the 100 points and no commission,
  but the node has no exposure for it.
\<close>

definition polkadot_node :: PolkadotNodeClient where
  "polkadot_node = \<lparr>
     polkadot_getAccountInfo = (\<lambda>a. Inr (Some account_1000)),
     polkadot_getValidatorReward = (\<lambda>e. if e = 5 then Inr (Some 1000) else Inr None),
     polkadot_getRewardPoints = (\<lambda>e. if e = 5
        then Inr (Some \<lparr>points_total = 100, individual = [(11, 50)]\<rparr>) else Inr None),
     polkadot_getValidatorPrefs = (\<lambda>v. Inr (Some \<lparr>commission = 0\<rparr>)),
     polkadot_getStakersClipped = (\<lambda>e v. Inr None),
     polkadot_getLedger = (\<lambda>a. Inr (Some \<lparr>lastReward = None\<rparr>)) \<rparr>"

text \<open>
  Parsers that accept any body, with a block time of 6000 and an existential deposit of
  1; a metadata blob of schema version 12; a node that is asked while its runtime
  version cannot be fetched, and the same node when it can.
\<close>

definition parsers_any :: "unit metadata_parsers" where
  "parsers_any = \<lparr>
     decodeV11 = (\<lambda>raw. Inr ()),
     decodeV12 = (\<lambda>raw. Inr ()),
     lookupConstant = (\<lambda>m moduleName constantName.
        if moduleName = ''Babe'' then Some 6000 else Some 1) \<rparr>"

definition blob_v12 :: "byte list" where
  "blob_v12 = magic_marker @ [12, 0]"

definition rpc_no_version :: rpc where
  "rpc_no_version = \<lparr>state_getMetadata = Inr blob_v12,
                      state_getRuntimeVersion = Inl (NetworkError ''unreachable'')\<rparr>"

definition rpc_healthy :: rpc where
  "rpc_healthy = \<lparr>state_getMetadata = Inr blob_v12, state_getRuntimeVersion = Inr 30\<rparr>"


section \<open>Properties\<close>

subsection \<open>utils/array.ts\<close>

lemma double_inverse_49: "double_div 1 49 = Double 5882252574524729 (- 58)"
  by code_simp

lemma double_49_times_inverse:
  "double_mul (double_of_nat 49) (double_div 1 49) = Double 9007199254740991 (- 53)"
  by code_simp

text \<open>With chunks of 3, a 10-element array is split into 4 chunks and flattens back.\<close>

lemma chunkedArray_flattenArray_3:
  "chunkedArray [0..<10] 3 = Inr [Some [0, 1, 2], Some [3, 4, 5], Some [6, 7, 8], Some [9]] \<and>
   map_sum id flattenArray (chunkedArray [0..<10] 3) = Inr [0..<10]"
  by code_simp

text \<open>
  C8. Splitting an array into chunks of \<open>chunkSize \<ge> 1\<close> elements and flattening the
  chunks should give the array back. With \<open>chunkSize = 49\<close> it does not: \<^verbatim>\<open>1 / 49\<close>
  rounds down, \<^verbatim>\<open>49 * (1 / 49)\<close> is \<^verbatim>\<open>0.9999999999999999\<close>, so the second chunk of
  a 50-element array is stored at index 0 over the first one, index 1 stays a hole, and
  flattening returns the last element alone.
\<close>

theorem chunkedArray_flattenArray_49:
  "chunkedArray [0..<50] 49 = Inr [Some [49], None] \<and>
   map_sum id flattenArray (chunkedArray [0..<50] 49) = Inr [49] \<and>
   map_sum id flattenArray (chunkedArray [0..<50] 49) \<noteq> Inr [0..<50]"
  by code_simp

subsection \<open>Balances\<close>

text \<open>
  C2. When the account info is there (and, if the existential deposit is to be
  excluded, the deposit is read), the transferable balance is
  free - reserved - locked - deposit, where locked is the miscFrozen lock when fees are
  ignored and the feeFrozen lock otherwise, and the deposit counts only when it is
  excluded. The difference is returned as it is, negative or not.
\<close>

theorem getTransferableBalance_formula:
  assumes "getAccountInfo node accountId = Inr (Some info)"
      and "excludeExistentialDeposit \<Longrightarrow> getExistentialDeposit node = Inr existentialDeposit"
  shows "getTransferableBalance node accountId excludeExistentialDeposit ignoreFees =
     Inr (free (data info) - reserved (data info)
          - (if ignoreFees then miscFrozen (data info) else feeFrozen (data info))
          - (if excludeExistentialDeposit then existentialDeposit else 0))"
  using assms by (simp add: getTransferableBalance_def await_def Let_def)

text \<open>
  The example: free 1000, reserved 0, miscFrozen 0, deposit 1 gives 999. The overdrawn
  account, with fees counted and the deposit kept, gives \<open>10 - 20 - 5 = -15\<close>.
\<close>

theorem getTransferableBalance_formula_witness:
  "getTransferableBalance node_1000 7 True True = Inr 999 \<and>
   getTransferableBalance node_overdrawn 7 False False = Inr (- 15)"
  using getTransferableBalance_formula [of node_1000 7 account_1000 True 1 True]
        getTransferableBalance_formula [of node_overdrawn 7 account_overdrawn False 0 False]
  by (simp add: node_1000_def node_overdrawn_def quiet_node_def account_1000_def
        account_overdrawn_def)

text \<open>
  C9. For an account of which the node has no account info, the transferable balance is
  0 whatever the two flags are (the deposit, when excluded, is still read first, together
  with the account info, and the call resolves once both lookups have).
\<close>

theorem getTransferableBalance_absent:
  assumes "getAccountInfo node accountId = Inr None"
      and "excludeExistentialDeposit \<Longrightarrow> getExistentialDeposit node = Inr existentialDeposit"
  shows "getTransferableBalance node accountId excludeExistentialDeposit ignoreFees = Inr 0"
  using assms by (simp add: getTransferableBalance_def await_def)

theorem getTransferableBalance_absent_witness:
  "getTransferableBalance quiet_node 7 True True = Inr 0 \<and>
   getTransferableBalance quiet_node 7 True False = Inr 0 \<and>
   getTransferableBalance quiet_node 7 False True = Inr 0 \<and>
   getTransferableBalance quiet_node 7 False False = Inr 0"
  using getTransferableBalance_absent [of quiet_node 7 True 1 True]
        getTransferableBalance_absent [of quiet_node 7 True 1 False]
        getTransferableBalance_absent [of quiet_node 7 False 1 True]
        getTransferableBalance_absent [of quiet_node 7 False 1 False]
  by (simp add: quiet_node_def)

text \<open>A rejected lookup aside, an absent account never gets an amount other than 0.\<close>

lemma absent_account_only_zero:
  assumes "getAccountInfo node accountId = Inr None"
      and "getTransferableBalance node accountId excludeExistentialDeposit ignoreFees = Inr v"
  shows "v = 0"
  using assms
  by (auto simp: getTransferableBalance_def await_def split: if_splits sum.splits)

subsection \<open>Available staking actions\<close>

text \<open>
  C5. While the era election is open, no staking action is offered, whatever the
  staking details, the nominations, the requested validators and the balance are.
\<close>

theorem no_actions_while_election_open:
  assumes "getElectionStatus node = Inr (Some OPEN)"
      and "getExistentialDeposit node = Inr minBondingValue"
  shows "getAvailableStakingActions ordinal node stakingDetails nominations validatorIds
           maxDelegationValue = Inr []"
  using assms by (simp add: getAvailableStakingActions_def await_def Let_def)

theorem no_actions_while_election_open_witness:
  "getAvailableStakingActions (\<lambda>t. 0) (quiet_node\<lparr>getElectionStatus := Inr (Some OPEN)\<rparr>)
     (Some \<lparr>active = 10, locked = [], unlocked = 5\<rparr>) None [3] 100 = Inr []"
  using no_actions_while_election_open
    [of "quiet_node\<lparr>getElectionStatus := Inr (Some OPEN)\<rparr>" 1 "\<lambda>t. 0"
        "Some \<lparr>active = 10, locked = [], unlocked = 5\<rparr>" None "[3]" 100]
  by (simp add: quiet_node_def)

subsection \<open>Reward arithmetic\<close>

lemma floor_rat_numeral:
  "\<lfloor>(numeral a :: rat) / numeral b\<rfloor> = numeral a div numeral b"
  using floor_divide_of_int_eq [of "numeral a" "numeral b", where ?'a = rat] by simp

lemma round_half_up_of_int: "round_half_up (of_int k) = k"
proof (cases "0 \<le> k")
  case True
  then show ?thesis by (simp add: round_half_up_def) linarith
next
  case False
  then have "\<lfloor>- (of_int k :: rat) + 1 / 2\<rfloor> = - k" by linarith
  with False show ?thesis by (simp add: round_half_up_def)
qed

lemma round_dp_exact: "terminates_within dp q \<Longrightarrow> round_dp dp q = q"
proof -
  assume "terminates_within dp q"
  then have e: "q * 10 ^ dp = of_int \<lfloor>q * 10 ^ dp\<rfloor>"
    unfolding terminates_within_def by (rule sym)
  have "round_dp dp q = of_int (round_half_up (of_int \<lfloor>q * 10 ^ dp\<rfloor>)) / 10 ^ dp"
    unfolding round_dp_def using e by simp
  also have "\<dots> = of_int \<lfloor>q * 10 ^ dp\<rfloor> / 10 ^ dp" by (simp only: round_half_up_of_int)
  also have "\<dots> = q * 10 ^ dp / 10 ^ dp" using e by simp
  also have "\<dots> = q" by simp
  finally show ?thesis .
qed

text \<open>
  C6, as stated: the validator reward is \<open>(p / P) * R\<close>. It is not when \<open>p / P\<close> has
  more than 20 decimal places; with \<open>R = 3\<close>, \<open>P = 3\<close>, \<open>p = 1\<close> the quotient is rounded
  to \<open>0.33333333333333333333\<close> and the reward is \<open>0.99999999999999999999\<close>, not \<open>1\<close>.
\<close>

theorem validator_reward_rounds:
  "calculateValidatorReward (Fin 3) (Fin 3) (Fin 1)
     = Fin (99999999999999999999 / 100000000000000000000) \<and>
   calculateValidatorReward (Fin 3) (Fin 3) (Fin 1) \<noteq> Fin ((1 / 3) * 3)"
  by (simp add: calculateValidatorReward_def DECIMAL_PLACES_def round_dp_def round_half_up_def
        floor_rat_numeral)

text \<open>
  C6, amended. With \<open>P \<noteq> 0\<close> and \<open>S \<noteq> 0\<close>, the validator reward is
  \<open>q (p / P) * R\<close> and the nominator reward is
  \<open>(1 - q (c / 10^9)) * (q (p / P) * R) * q (s / S)\<close>, where \<open>q\<close> rounds a quotient to 20
  decimal places, half up. When the three quotients have at most 20 decimal places,
  these are \<open>(p / P) * R\<close> and \<open>(1 - c / 10^9) * ((p / P) * R) * (s / S)\<close> exactly.
\<close>

theorem reward_formula:
  assumes "P \<noteq> 0" and "S \<noteq> 0"
  shows "calculateValidatorReward (Fin R) (Fin P) (Fin p) = Fin (round_dp 20 (p / P) * R) \<and>
         calculateNominatorReward (calculateValidatorReward (Fin R) (Fin P) (Fin p))
             (Fin c) (Fin S) (Fin s)
           = Fin ((1 - round_dp 20 (c / 10 ^ 9)) * (round_dp 20 (p / P) * R) * round_dp 20 (s / S)) \<and>
         (terminates_within 20 (p / P) \<and> terminates_within 20 (c / 10 ^ 9)
            \<and> terminates_within 20 (s / S) \<longrightarrow>
            calculateValidatorReward (Fin R) (Fin P) (Fin p) = Fin (p / P * R) \<and>
            calculateNominatorReward (calculateValidatorReward (Fin R) (Fin P) (Fin p))
                (Fin c) (Fin S) (Fin s)
              = Fin ((1 - c / 10 ^ 9) * (p / P * R) * (s / S)))"
  using assms
  by (simp add: calculateValidatorReward_def calculateNominatorReward_def DECIMAL_PLACES_def
        minus_bn_def round_dp_exact)

text \<open>
  The example: payout 100, total points 1000, validator points 250, commission
  100000000, total stake 5000, nominator stake 500 give 25 and 2.25.
\<close>

theorem reward_formula_witness:
  "calculateValidatorReward (Fin 100) (Fin 1000) (Fin 250) = Fin 25 \<and>
   calculateNominatorReward (calculateValidatorReward (Fin 100) (Fin 1000) (Fin 250))
     (Fin 100000000) (Fin 5000) (Fin 500) = Fin (9 / 4)"
proof -
  have t: "terminates_within 20 (250 / 1000) \<and> terminates_within 20 (100000000 / 10 ^ 9)
           \<and> terminates_within 20 (500 / 5000)"
    by (simp add: terminates_within_def floor_rat_numeral)
  have nz: "(1000::rat) \<noteq> 0" "(5000::rat) \<noteq> 0" by simp_all
  have n1: "(250::rat) / 1000 * 100 = 25" by simp
  have n2: "(1 - 100000000 / 10 ^ 9) * 25 * (500 / 5000) = (9::rat) / 4" by simp
  have "calculateValidatorReward (Fin 100) (Fin 1000) (Fin 250) = Fin (250 / 1000 * 100) \<and>
        calculateNominatorReward (calculateValidatorReward (Fin 100) (Fin 1000) (Fin 250))
          (Fin 100000000) (Fin 5000) (Fin 500)
          = Fin ((1 - 100000000 / 10 ^ 9) * (250 / 1000 * 100) * (500 / 5000))"
    using reward_formula [OF nz, of 100 250 100000000 500] t by blast
  then show ?thesis unfolding n1 n2 .
qed

subsection \<open>Nomination status\<close>

lemma indexOf_notin: "v \<notin> set xs \<Longrightarrow> indexOf xs v = - 1"
  by (induction xs) auto

lemma indexOf_less_length: "indexOf xs v < int (length xs)"
  by (induction xs) (auto simp: Let_def)

lemma indexOf_nth: "distinct xs \<Longrightarrow> i < length xs \<Longrightarrow> indexOf xs (xs ! i) = int i"
proof (induction xs arbitrary: i)
  case Nil
  then show ?case by simp
next
  case (Cons x xs)
  show ?case
  proof (cases i)
    case 0
    then show ?thesis by simp
  next
    case (Suc j)
    with Cons.prems have j: "j < length xs" and d: "distinct xs" and "x \<noteq> xs ! j"
      by auto
    with Cons.IH [OF d j] Suc show ?thesis by (simp add: Let_def)
  qed
qed

lemma indexOf_upt: "k < n \<Longrightarrow> indexOf [0..<n] k = int k"
  using indexOf_nth [of "[0..<n]" k] by simp

lemma sorted_stakes: "sorted (map (\<lambda>i. int i - c) [0..<n])"
  by (induction n) (auto simp: sorted_append)

lemma sort_by_stake_300:
  "map fst (sort_by_stake (others exposure_300)) = [0..<300]"
proof -
  have "sorted (map (\<lambda>element. - snd element) (others exposure_300))"
    using sorted_stakes [of 300 300] by (simp add: exposure_300_def comp_def)
  then have "sort_by_stake (others exposure_300) = others exposure_300"
    unfolding sort_by_stake_def by (rule sort_key_id_if_sorted)
  then show ?thesis by (simp add: exposure_300_def comp_def)
qed

text \<open>
  Among the 300 nominators, those ranked 258th or lower are oversubscribed; the one
  ranked 257th (account 256, at position 256 of the sorted list) is active.
\<close>

lemma nominationStatusOf_300:
  "k < 300 \<Longrightarrow> nominationStatusOf exposure_300 k = (if 256 < k then OVERSUBSCRIBED else ACTIVE)"
  "300 \<le> k \<Longrightarrow> nominationStatusOf exposure_300 k = INACTIVE"
proof -
  have ex: "list_ex (\<lambda>element. fst element = k) (others exposure_300) \<longleftrightarrow> k < 300"
    by (auto simp: exposure_300_def list_ex_iff)
  have len: "length (others exposure_300) = 300" by (simp add: exposure_300_def)
  show "k < 300 \<Longrightarrow> nominationStatusOf exposure_300 k = (if 256 < k then OVERSUBSCRIBED else ACTIVE)"
    by (simp add: nominationStatusOf_def ex len sort_by_stake_300 indexOf_upt)
  show "300 \<le> k \<Longrightarrow> nominationStatusOf exposure_300 k = INACTIVE"
    by (simp add: nominationStatusOf_def ex)
qed

text \<open>
  The test \<^verbatim>\<open>length > 256\<close> takes a list of 257 nominators as oversubscribed, yet
  \<^verbatim>\<open>position > 256\<close> holds at no position of such a list: none of its nominators is
  ever reported as oversubscribed.
\<close>

lemma nominationStatusOf_257_never_oversubscribed:
  assumes "length (others exposure) = 257"
  shows "nominationStatusOf exposure nominator \<noteq> OVERSUBSCRIBED"
proof -
  have "indexOf (map fst (sort_by_stake (others exposure))) nominator
          < int (length (map fst (sort_by_stake (others exposure))))"
    by (rule indexOf_less_length)
  then have "\<not> 256 < indexOf (map fst (sort_by_stake (others exposure))) nominator"
    using assms by (simp add: sort_by_stake_def)
  then show ?thesis by (simp add: nominationStatusOf_def Let_def)
qed

text \<open>
  C1. With an exposure list of 300 entries, the nominator ranked 257th by stake should
  be OVERSUBSCRIBED. The code returns ACTIVE for it: the rank is compared as a
  zero-based position with \<^verbatim>\<open>position > 256\<close>, so OVERSUBSCRIBED starts at the 258th
  rank. The nominator ranked 100th is ACTIVE and an account that is not in the list is
  INACTIVE.
\<close>

theorem getNominationStatus_rank_257_active:
  "getNominationStatus node_300 256 1000 (Some 10) = Inr (Some ACTIVE) \<and>
   getNominationStatus node_300 257 1000 (Some 10) = Inr (Some OVERSUBSCRIBED) \<and>
   getNominationStatus node_300 99 1000 (Some 10) = Inr (Some ACTIVE) \<and>
   getNominationStatus node_300 5000 1000 (Some 10) = Inr (Some INACTIVE)"
  by (simp add: getNominationStatus_def await_def node_300_def quiet_node_def
        nominationStatusOf_300)

subsection \<open>Nominator rewards\<close>

lemma await_Inr: "await p k = Inr y \<longleftrightarrow> (\<exists>x. p = Inr x \<and> k x = Inr y)"
  by (cases p) (auto simp: await_def)

lemma Promise_all_map_Inr: "Promise_all (map Inr ys) = Inr ys"
  by (induction ys) auto

lemma Promise_all_InrD: "Promise_all ps = Inr ys \<Longrightarrow> ps = map Inr ys"
  by (induction ps arbitrary: ys) (auto split: sum.splits)

lemma partialReward_Some:
  "partialReward accountId reward rewardPoints (validator, c, exposure) \<noteq> None \<longleftrightarrow>
     c \<noteq> None \<and> (\<exists>e. exposure = Some e \<and> find_value (others e) accountId \<noteq> None)
     \<and> find_value (individual rewardPoints) validator \<noteq> None"
  by (auto simp: partialReward_def Let_def split: option.splits)

lemma fetchExposures_complete:
  assumes "fetchExposuresWithValidators node validators era = Inr ews"
      and "getRewardPoints node era = Inr (Some rewardPoints)"
  shows "list_ex (\<lambda>entry. partialReward accountId reward rewardPoints entry \<noteq> None) ews
         \<longleftrightarrow> list_ex (validatorComplete node accountId era) validators"
  using assms(1)
proof (induction validators arbitrary: ews)
  case Nil
  then show ?case by (simp add: fetchExposuresWithValidators_def)
next
  case (Cons v vs)
  from Cons.prems obtain entry rest where ews: "ews = entry # rest"
    and entry: "await (getValidatorPrefs node era v) (\<lambda>prefs.
                  await (getStakersClipped node era v) (\<lambda>exposure.
                    Inr (v, map_option commission prefs, exposure))) = Inr entry"
    and rest: "fetchExposuresWithValidators node vs era = Inr rest"
    by (auto simp: fetchExposuresWithValidators_def split: sum.splits)
  from entry obtain prefs exposure where p: "getValidatorPrefs node era v = Inr prefs"
    and x: "getStakersClipped node era v = Inr exposure"
    and e: "entry = (v, map_option commission prefs, exposure)"
    by (auto simp: await_Inr)
  have "partialReward accountId reward rewardPoints entry \<noteq> None
          \<longleftrightarrow> validatorComplete node accountId era v"
    unfolding e partialReward_Some
    by (auto simp: validatorComplete_def p x assms(2) split: option.splits)
  with Cons.IH [OF rest] ews show ?case by simp
qed

text \<open>
  An era gets a partial reward exactly when it is complete, and the reward carries the
  era's index.
\<close>

lemma calculateEraNominatorReward_entry:
  assumes "calculateEraNominatorReward node accountId validators era = Inr r"
  shows "(r \<noteq> None \<longleftrightarrow> eraComplete node accountId validators era)
         \<and> (\<forall>p. r = Some p \<longrightarrow> eraIndex p = era)"
proof -
  from assms obtain reward rewardPoints ews where
      rw: "getValidatorReward node era = Inr reward"
  and rp: "getRewardPoints node era = Inr rewardPoints"
  and ew: "fetchExposuresWithValidators node validators era = Inr ews"
    by (auto simp: calculateEraNominatorReward_def await_Inr)
  show ?thesis
  proof (cases reward)
    case None
    with assms rw rp ew show ?thesis
      by (auto simp: calculateEraNominatorReward_def await_def eraComplete_def)
  next
    case (Some rew)
    show ?thesis
    proof (cases rewardPoints)
      case None
      with assms rw rp ew Some show ?thesis
        by (auto simp: calculateEraNominatorReward_def await_def eraComplete_def)
    next
      case (Some pts)
      have all: "list_all (\<lambda>reward. reward = None)
                   (filter (\<lambda>reward. reward \<noteq> None) (map (partialReward accountId rew pts) ews))
                 \<longleftrightarrow> \<not> list_ex (\<lambda>entry. partialReward accountId rew pts entry \<noteq> None) ews"
        by (auto simp: list_all_iff list_ex_iff)
      have cmp: "list_ex (\<lambda>entry. partialReward accountId rew pts entry \<noteq> None) ews
                 \<longleftrightarrow> eraComplete node accountId validators era"
        using fetchExposures_complete [OF ew, of pts accountId rew] rp Some rw \<open>reward = Some rew\<close>
        by (simp add: eraComplete_def)
      from assms rw rp ew Some \<open>reward = Some rew\<close> show ?thesis
        unfolding calculateEraNominatorReward_def
        by (auto simp: await_def Let_def all cmp simp del: not_None_eq split: if_splits)
    qed
  qed
qed

lemma eraIndex_with_timestamp:
  "eraIndex (with_timestamp activeEra d partial) = eraIndex partial"
  by (simp add: with_timestamp_def Let_def)

lemma rewards_eras:
  assumes "Promise_all (map (\<lambda>era.
             await (calculateEraNominatorReward node accountId validators era) (\<lambda>partial.
               Inr (map_option (with_timestamp activeEra d) partial))) eras) = Inr rs"
  shows "map eraIndex (List.map_filter id rs) = filter (eraComplete node accountId validators) eras"
  using assms
proof (induction eras arbitrary: rs)
  case Nil
  then show ?case by (simp add: List.map_filter_simps)
next
  case (Cons era eras)
  from Cons.prems obtain r rest where rs: "rs = r # rest"
    and r: "await (calculateEraNominatorReward node accountId validators era) (\<lambda>partial.
               Inr (map_option (with_timestamp activeEra d) partial)) = Inr r"
    and rest: "Promise_all (map (\<lambda>era.
             await (calculateEraNominatorReward node accountId validators era) (\<lambda>partial.
               Inr (map_option (with_timestamp activeEra d) partial))) eras) = Inr rest"
    by (auto split: sum.splits)
  from r obtain partial where c: "calculateEraNominatorReward node accountId validators era = Inr partial"
    and rp: "r = map_option (with_timestamp activeEra d) partial"
    by (auto simp: await_Inr)
  from calculateEraNominatorReward_entry [OF c]
  have 1: "partial \<noteq> None \<longleftrightarrow> eraComplete node accountId validators era"
    and 2: "\<And>p. partial = Some p \<Longrightarrow> eraIndex p = era" by auto
  show ?case
  proof (cases partial)
    case None
    with 1 rp rs Cons.IH [OF rest] show ?thesis by (simp add: List.map_filter_simps)
  next
    case (Some p)
    with 1 2 rp rs Cons.IH [OF rest] show ?thesis
      by (simp add: List.map_filter_simps eraIndex_with_timestamp)
  qed
qed

lemma floor_rat_one_numeral: "\<lfloor>(1 :: rat) / numeral b\<rfloor> = 1 div numeral b"
  using floor_divide_of_int_eq [of 1 "numeral b", where ?'a = rat] by simp

lemma era_5_two_validators:
  "calculateEraNominatorReward node_two_validators 7 [11, 12] 5
     = Inr (Some \<lparr>eraIndex = 5, amount = Fin 250, exposures = [(11, 0)]\<rparr>)"
  by (simp add: calculateEraNominatorReward_def fetchExposuresWithValidators_def await_def
      node_two_validators_def quiet_node_def partialReward_def find_value_def findIndex_def
      calculateNominatorReward_def calculateValidatorReward_def bn_def minus_bn_def
      DECIMAL_PLACES_def round_dp_def round_half_up_def floor_rat_numeral floor_rat_one_numeral
      List.map_filter_simps Let_def)

lemma era_4_two_validators:
  "calculateEraNominatorReward node_two_validators 7 [11, 12] 4 = Inr None"
  by (simp add: calculateEraNominatorReward_def fetchExposuresWithValidators_def await_def
      node_two_validators_def quiet_node_def)

lemma duration_two_validators: "getExpectedEraDuration node_two_validators = Inr (Some 100)"
  by (simp add: node_two_validators_def quiet_node_def)

lemma clipped_two_validators: "getStakersClipped node_two_validators 5 12 = Inr None"
  by (simp add: node_two_validators_def quiet_node_def)

lemma rewards_two_validators:
  "getNominatorRewards node_two_validators 7 [11, 12] active_era_6 (Inr [5, 4])
     = Inr [\<lparr>eraIndex = 5, amount = Fin 250, exposures = [(11, 0)], timestamp = 1000\<rparr>]"
  by (simp add: getNominatorRewards_def era_5_two_validators era_4_two_validators
      duration_two_validators await_def eraIndices_def with_timestamp_def active_era_6_def
      List.map_filter_simps Let_def)

text \<open>
  C4, as stated: an era for which any prerequisite datum is missing has no entry in the
  rewards list. With two nominated validators, the node having no exposure for
  validator 12 in era 5, the list has an entry for era 5 all the same: the reward from
  validator 11 alone.
\<close>

theorem rewards_entry_despite_missing_exposure:
  "getStakersClipped node_two_validators 5 12 = Inr None \<and>
   getNominatorRewards node_two_validators 7 [11, 12] active_era_6 (Inr [5, 4])
     = Inr [\<lparr>eraIndex = 5, amount = Fin 250, exposures = [(11, 0)], timestamp = 1000\<rparr>]"
  by (simp add: rewards_two_validators clipped_two_validators)

lemma partialReward_entry:
  assumes "getValidatorReward node era = Inr (Some reward)"
      and "getRewardPoints node era = Inr (Some rewardPoints)"
      and "getValidatorPrefs node era v = Inr prefs"
      and "getStakersClipped node era v = Inr exposure"
  shows "partialReward accountId reward rewardPoints (v, map_option commission prefs, exposure)
         = (if validatorComplete node accountId era v
            then Some (validatorShare node accountId era v) else None)"
  using assms
  by (auto simp: partialReward_def validatorComplete_def validatorShare_def Let_def
      split: option.splits)

lemma partialRewards_complete:
  assumes "fetchExposuresWithValidators node validators era = Inr ews"
      and rw: "getValidatorReward node era = Inr (Some reward)"
      and rp: "getRewardPoints node era = Inr (Some rewardPoints)"
  shows "filter (\<lambda>r. r \<noteq> None) (map (partialReward accountId reward rewardPoints) ews)
         = map (\<lambda>v. Some (validatorShare node accountId era v))
             (filter (validatorComplete node accountId era) validators)"
  using assms(1)
proof (induction validators arbitrary: ews)
  case Nil
  then show ?case by (simp add: fetchExposuresWithValidators_def)
next
  case (Cons v vs)
  from Cons.prems obtain entry rest where ews: "ews = entry # rest"
    and entry: "await (getValidatorPrefs node era v) (\<lambda>prefs.
                  await (getStakersClipped node era v) (\<lambda>exposure.
                    Inr (v, map_option commission prefs, exposure))) = Inr entry"
    and rest: "fetchExposuresWithValidators node vs era = Inr rest"
    by (auto simp: fetchExposuresWithValidators_def split: sum.splits)
  from entry obtain prefs exposure where p: "getValidatorPrefs node era v = Inr prefs"
    and x: "getStakersClipped node era v = Inr exposure"
    and e: "entry = (v, map_option commission prefs, exposure)"
    by (auto simp: await_Inr)
  have "partialReward accountId reward rewardPoints entry
          = (if validatorComplete node accountId era v
             then Some (validatorShare node accountId era v) else None)"
    unfolding e by (rule partialReward_entry [OF rw rp p x])
  with Cons.IH [OF rest] ews show ?case by simp
qed

lemma foldl_present:
  "foldl (\<lambda>sum next. case next of None \<Rightarrow> sum | Some r \<Rightarrow> plus_bn sum r) z
     (map (\<lambda>v. Some (f v)) xs) = foldl plus_bn z (map f xs)"
  by (induction xs arbitrary: z) auto

lemma calculateEraNominatorReward_amount:
  assumes "calculateEraNominatorReward node accountId validators era = Inr (Some p)"
  shows "amount p = eraAmount node accountId validators era"
proof -
  from assms obtain reward rewardPoints ews where
      rw: "getValidatorReward node era = Inr reward"
  and rp: "getRewardPoints node era = Inr rewardPoints"
  and ew: "fetchExposuresWithValidators node validators era = Inr ews"
    by (auto simp: calculateEraNominatorReward_def await_Inr)
  from assms rw rp ew obtain rew pts where r: "reward = Some rew" and q: "rewardPoints = Some pts"
    by (cases reward; cases rewardPoints)
       (auto simp: calculateEraNominatorReward_def await_def)
  have flt: "filter (\<lambda>r. r \<noteq> None) (map (partialReward accountId rew pts) ews)
         = map (\<lambda>v. Some (validatorShare node accountId era v))
             (filter (validatorComplete node accountId era) validators)"
    using partialRewards_complete [OF ew, of rew pts accountId] rw rp r q by simp
  from assms rw rp ew r q show ?thesis
    unfolding calculateEraNominatorReward_def eraAmount_def
    by (auto simp: await_def Let_def flt foldl_present simp del: not_None_eq split: if_splits)
qed

lemma amount_with_timestamp:
  "amount (with_timestamp activeEra d partial) = amount partial"
  by (simp add: with_timestamp_def Let_def)

lemma rewards_amounts:
  assumes "Promise_all (map (\<lambda>era.
             await (calculateEraNominatorReward node accountId validators era) (\<lambda>partial.
               Inr (map_option (with_timestamp activeEra d) partial))) eras) = Inr rs"
  shows "map (\<lambda>r. (eraIndex r, amount r)) (List.map_filter id rs)
         = map (\<lambda>era. (era, eraAmount node accountId validators era))
             (filter (eraComplete node accountId validators) eras)"
  using assms
proof (induction eras arbitrary: rs)
  case Nil
  then show ?case by (simp add: List.map_filter_simps)
next
  case (Cons era eras)
  from Cons.prems obtain r rest where rs: "rs = r # rest"
    and r: "await (calculateEraNominatorReward node accountId validators era) (\<lambda>partial.
               Inr (map_option (with_timestamp activeEra d) partial)) = Inr r"
    and rest: "Promise_all (map (\<lambda>era.
             await (calculateEraNominatorReward node accountId validators era) (\<lambda>partial.
               Inr (map_option (with_timestamp activeEra d) partial))) eras) = Inr rest"
    by (auto split: sum.splits)
  from r obtain partial where c: "calculateEraNominatorReward node accountId validators era = Inr partial"
    and rp: "r = map_option (with_timestamp activeEra d) partial"
    by (auto simp: await_Inr)
  from calculateEraNominatorReward_entry [OF c]
  have 1: "partial \<noteq> None \<longleftrightarrow> eraComplete node accountId validators era"
    and 2: "\<And>p. partial = Some p \<Longrightarrow> eraIndex p = era" by auto
  show ?case
  proof (cases partial)
    case None
    with 1 rp rs Cons.IH [OF rest] show ?thesis by (simp add: List.map_filter_simps)
  next
    case (Some p)
    with c have "amount p = eraAmount node accountId validators era"
      by (simp add: calculateEraNominatorReward_amount)
    with Some 1 2 rp rs Cons.IH [OF rest] show ?thesis
      by (simp add: List.map_filter_simps eraIndex_with_timestamp amount_with_timestamp)
  qed
qed

text \<open>
  C4, amended. The rewards list of the controller has one entry for each requested era
  that is complete, in the order of the request, and none for any other era: no entry
  when the era's reward pool or reward points are missing, and none when no nominated
  validator has its commission, its exposure, its points and the nominator's stake all
  there. The amount of an entry is the sum over the nominated validators whose data is
  complete; a validator with missing data is left out of it.
\<close>

theorem getNominatorRewards_eras:
  assumes "getNominatorRewards node accountId validators activeEra eras = Inr rewards"
  shows "map eraIndex rewards
           = filter (eraComplete node accountId validators) (eraIndices activeEra eras) \<and>
         map (\<lambda>r. (eraIndex r, amount r)) rewards
           = map (\<lambda>era. (era, eraAmount node accountId validators era))
               (filter (eraComplete node accountId validators) (eraIndices activeEra eras))"
proof -
  from assms obtain d rs where "getExpectedEraDuration node = Inr (Some d)"
    and ps: "Promise_all (map (\<lambda>era.
             await (calculateEraNominatorReward node accountId validators era) (\<lambda>partial.
               Inr (map_option (with_timestamp activeEra d) partial)))
             (eraIndices activeEra eras)) = Inr rs"
    and "rewards = List.map_filter id rs"
    by (auto simp: getNominatorRewards_def await_Inr split: option.splits)
  with rewards_eras [OF ps] rewards_amounts [OF ps] show ?thesis by simp
qed

text \<open>
  In the example, era 5 is the one complete era, validator 11 the one validator with
  complete data, and the amount of the era is its contribution, 250.
\<close>

theorem getNominatorRewards_eras_witness:
  "filter (eraComplete node_two_validators 7 [11, 12]) (eraIndices active_era_6 (Inr [5, 4])) = [5]
   \<and> map (\<lambda>era. (era, eraAmount node_two_validators 7 [11, 12] era))
       (filter (eraComplete node_two_validators 7 [11, 12]) (eraIndices active_era_6 (Inr [5, 4])))
     = [(5, Fin 250)]"
  using getNominatorRewards_eras [OF rewards_two_validators] by simp

text \<open>
  The earlier client, for comparison: with the exposure of the only nominated validator
  missing, its \<^verbatim>\<open>getRewards\<close> returns an entry for the era, with amount zero.
\<close>

lemma getRewards_zero_entry:
  "polkadot_getStakersClipped polkadot_node 5 11 = Inr None \<and>
   getRewards polkadot_node 7 [11] 6 1
     = Inr [\<lparr>reward_eraIndex = 5, reward_amount = Fin 0, reward_exposures = [],
             reward_timestamp = 0, collected = False\<rparr>]"
  by (simp add: getRewards_def polkadot_eraReward_def polkadot_validatorShare_def await_def
      polkadot_node_def List.map_filter_simps)

subsection \<open>Balance of several addresses\<close>

lemma foldl_plus_sum_list:
  "foldl (\<lambda>current next. current + next) (x :: int) xs = x + sum_list xs"
  by (induction xs arbitrary: x) auto

lemma reduce_plus:
  "balances \<noteq> [] \<Longrightarrow>
     reduce (\<lambda>current next. current + next) balances = Inr (sum_list (balances :: int list))"
  by (cases balances) (auto simp: reduce_def foldl_plus_sum_list)

lemma toString10_2000: "toString10 2000 = ''2000''"
  by (simp add: toString10_def digits10.simps)

text \<open>
  C10. \<^verbatim>\<open>getBalanceOfAddresses\<close>, of the Substrate protocol and of the earlier Polkadot
  protocol alike, fails with a TypeError on the empty list, and on a non-empty list
  whose balances are all obtained it returns the decimal string of their sum.
\<close>

theorem getBalanceOfAddresses_sum:
  "getBalanceOfAddresses node [] = Inl TypeError \<and>
   polkadot_getBalanceOfAddresses pnode [] = Inl TypeError \<and>
   (addresses \<noteq> [] \<and> Promise_all (map (getBalance node) addresses) = Inr balances
      \<longrightarrow> getBalanceOfAddresses node addresses = Inr (toString10 (sum_list balances))) \<and>
   (addresses \<noteq> [] \<and> Promise_all (map (polkadot_getBalance pnode) addresses) = Inr balances'
      \<longrightarrow> polkadot_getBalanceOfAddresses pnode addresses = Inr (toString10 (sum_list balances')))"
proof (intro conjI impI)
  show "getBalanceOfAddresses node [] = Inl TypeError"
    by (simp add: getBalanceOfAddresses_def await_def reduce_def)
  show "polkadot_getBalanceOfAddresses pnode [] = Inl TypeError"
    by (simp add: polkadot_getBalanceOfAddresses_def await_def reduce_def)
next
  assume h: "addresses \<noteq> [] \<and> Promise_all (map (getBalance node) addresses) = Inr balances"
  then have "map (getBalance node) addresses = map Inr balances"
    by (simp add: Promise_all_InrD)
  then have "length addresses = length balances" by (metis length_map)
  with h have "balances \<noteq> []" by auto
  with h show "getBalanceOfAddresses node addresses = Inr (toString10 (sum_list balances))"
    by (simp add: getBalanceOfAddresses_def await_def reduce_plus)
next
  assume h: "addresses \<noteq> []
             \<and> Promise_all (map (polkadot_getBalance pnode) addresses) = Inr balances'"
  then have "map (polkadot_getBalance pnode) addresses = map Inr balances'"
    by (simp add: Promise_all_InrD)
  then have "length addresses = length balances'" by (metis length_map)
  with h have "balances' \<noteq> []" by auto
  with h show "polkadot_getBalanceOfAddresses pnode addresses
                 = Inr (toString10 (sum_list balances'))"
    by (simp add: polkadot_getBalanceOfAddresses_def await_def reduce_plus)
qed

theorem getBalanceOfAddresses_sum_witness:
  "getBalanceOfAddresses node_1000 [7, 8] = Inr ''2000'' \<and>
   polkadot_getBalanceOfAddresses polkadot_node [7, 8] = Inr ''2000'' \<and>
   getBalanceOfAddresses node_1000 [] = Inl TypeError \<and>
   polkadot_getBalanceOfAddresses polkadot_node [] = Inl TypeError"
proof -
  have 1: "Promise_all (map (getBalance node_1000) [7, 8]) = Inr [1000, 1000]"
    by (simp add: getBalance_def await_def node_1000_def quiet_node_def account_1000_def)
  have 2: "Promise_all (map (polkadot_getBalance polkadot_node) [7, 8]) = Inr [1000, 1000]"
    by (simp add: polkadot_getBalance_def await_def polkadot_node_def account_1000_def)
  from getBalanceOfAddresses_sum
         [of node_1000 polkadot_node "[7, 8]" "[1000, 1000]" "[1000, 1000]"] 1 2
  show ?thesis by (simp add: toString10_2000)
qed

subsection \<open>Metadata\<close>

lemma magic_marker_bytes: "magic_marker = [0x6d, 0x65, 0x74, 0x61]"
  by (simp add: magic_marker_def)

lemma unat_byte_bound: "unat (b :: byte) < 256"
  using unsigned_less [of b, where ?'a = nat] by simp

lemma base256:
  fixes x y n :: nat
  assumes "x < 256" and "x + 256 * y = n"
  shows "x = n mod 256 \<and> y = n div 256"
  using assms by auto

lemma byte_eqI: "unat (b :: byte) = unat (c :: byte) \<Longrightarrow> b = c"
  by (rule word_unat_eq_iff [THEN iffD2])

text \<open>Four bytes read as a little-endian number give the magic number only if they are \<open>meta\<close>.\<close>

lemma le_nat_magic:
  "le_nat [a, b, c, d] = MAGIC_NUMBER \<longleftrightarrow> [a, b, c, d] = magic_marker"
proof
  assume h: "le_nat [a, b, c, d] = MAGIC_NUMBER"
  then have e: "unat a + 256 * (unat b + 256 * (unat c + 256 * unat d)) = 1635018093"
    by (simp add: MAGIC_NUMBER_def)
  from base256 [OF unat_byte_bound e]
  have a: "unat a = 109" and e1: "unat b + 256 * (unat c + 256 * unat d) = 6386789"
    by simp_all
  from base256 [OF unat_byte_bound e1]
  have b: "unat b = 101" and e2: "unat c + 256 * unat d = 24948"
    by simp_all
  from base256 [OF unat_byte_bound e2]
  have c: "unat c = 116" and d: "unat d = 97"
    by simp_all
  have "a = 109" "b = 101" "c = 116" "d = 97"
    using a b c d by (auto intro: byte_eqI)
  then show "[a, b, c, d] = magic_marker" by (simp add: magic_marker_bytes)
next
  assume "[a, b, c, d] = magic_marker"
  then show "le_nat [a, b, c, d] = MAGIC_NUMBER"
    by (simp add: magic_marker_bytes MAGIC_NUMBER_def)
qed

lemma four_bytes:
  assumes "4 \<le> length (raw :: byte list)"
  obtains a b c d rest where "raw = a # b # c # d # rest"
proof -
  from assms obtain a r1 where 1: "raw = a # r1" by (cases raw) auto
  with assms obtain b r2 where 2: "r1 = b # r2" by (cases r1) auto
  with 1 assms obtain c r3 where 3: "r2 = c # r3" by (cases r2) auto
  with 1 2 assms obtain d r4 where 4: "r3 = d # r4" by (cases r3) auto
  with 1 2 3 that show thesis by simp
qed

lemma decode_magic:
  assumes "4 \<le> length raw"
  shows "decodeNextInt 32 raw = Inr (le_nat (take 4 raw), drop 4 raw)"
  using assms by (simp add: decodeNextInt_def)

lemma magic_iff:
  assumes "4 \<le> length raw"
  shows "le_nat (take 4 raw) = MAGIC_NUMBER \<longleftrightarrow> take 4 raw = magic_marker"
proof -
  from assms obtain a b c d rest where "raw = a # b # c # d # rest" by (rule four_bytes)
  then show ?thesis using le_nat_magic [of a b c d] by simp
qed

text \<open>A blob that ends before the marker or before the version byte is a decode error.\<close>

lemma Metadata_decode_short:
  "length raw < 4 \<Longrightarrow> Metadata_decode parsers raw = Inl DecodeError"
  "take 4 raw = magic_marker \<Longrightarrow> length raw = 4 \<Longrightarrow> Metadata_decode parsers raw = Inl DecodeError"
proof -
  show "length raw < 4 \<Longrightarrow> Metadata_decode parsers raw = Inl DecodeError"
    by (simp add: Metadata_decode_def decodeNextInt_def await_def)
  assume m: "take 4 raw = magic_marker" and l: "length raw = 4"
  then have "le_nat (take 4 raw) = MAGIC_NUMBER" using magic_iff [of raw] by simp
  with l show "Metadata_decode parsers raw = Inl DecodeError"
    by (simp add: Metadata_decode_def decode_magic await_def assertMagicNumber_def
        decodeNextInt_def)
qed

text \<open>
  C7. A blob whose leading four bytes are not the ASCII marker \<open>meta\<close> is rejected with
  the invalid-value error, and a blob with the marker whose version byte is neither 11
  nor 12 with the unsupported error, whatever the version parsers are. The result is the
  error alone: no Metadata value comes with it.
\<close>

theorem Metadata_decode_rejects:
  "(4 \<le> length raw \<and> take 4 raw \<noteq> magic_marker
      \<longrightarrow> Metadata_decode parsers raw = Inl InvalidValueError) \<and>
   (5 \<le> length raw \<and> take 4 raw = magic_marker \<and> raw ! 4 \<noteq> 11 \<and> raw ! 4 \<noteq> 12
      \<longrightarrow> Metadata_decode parsers raw = Inl UnsupportedError)"
proof (intro conjI impI)
  assume h: "4 \<le> length raw \<and> take 4 raw \<noteq> magic_marker"
  then have "le_nat (take 4 raw) \<noteq> MAGIC_NUMBER" using magic_iff [of raw] by simp
  with h show "Metadata_decode parsers raw = Inl InvalidValueError"
    by (simp add: Metadata_decode_def decode_magic await_def assertMagicNumber_def)
next
  assume h: "5 \<le> length raw \<and> take 4 raw = magic_marker \<and> raw ! 4 \<noteq> 11 \<and> raw ! 4 \<noteq> 12"
  then have len: "4 \<le> length raw" by simp
  with h have m: "le_nat (take 4 raw) = MAGIC_NUMBER" using magic_iff [of raw] by simp
  from h obtain v rest where d: "drop 4 raw = v # rest" and v: "v = raw ! 4"
    by (cases "drop 4 raw") (auto simp: hd_drop_conv_nth dest: arg_cong [where f = hd])
  have ver: "decodeNextInt 8 (drop 4 raw) = Inr (unat v, rest)"
    by (simp add: decodeNextInt_def d)
  have "unat (11 :: byte) = 11" and "unat (12 :: byte) = 12" by simp_all
  with h v have "unat v \<noteq> 11" "unat v \<noteq> 12"
    using byte_eqI [of v 11] byte_eqI [of v 12] by auto
  with len m ver show "Metadata_decode parsers raw = Inl UnsupportedError"
    by (simp add: Metadata_decode_def decode_magic await_def assertMagicNumber_def)
qed

theorem Metadata_decode_rejects_witness:
  "Metadata_decode parsers_any [0x6d, 0x65, 0x74, 0x62, 12] = Inl InvalidValueError \<and>
   Metadata_decode parsers_any (magic_marker @ [13]) = Inl UnsupportedError"
  using Metadata_decode_rejects [of "[0x6d, 0x65, 0x74, 0x62, 12]" parsers_any]
        Metadata_decode_rejects [of "magic_marker @ [13]" parsers_any]
  by (simp add: magic_marker_bytes)

lemma decode_blob_v12: "Metadata_decode parsers_any blob_v12 = Inr (Metadata ())"
  by (simp add: Metadata_decode_def decodeNextInt_def blob_v12_def magic_marker_bytes await_def
      assertMagicNumber_def MAGIC_NUMBER_def parsers_any_def)

subsection \<open>Lazy initialization of the node client\<close>

text \<open>
  Every call of \<^verbatim>\<open>initApi\<close> leaves \<^verbatim>\<open>initApiPromise\<close> set, and a call that finds it set
  changes nothing: the initialization is started once in the life of a client, however
  it ends.
\<close>

lemma initApi_sets_promise: "initApiPromise (snd (initApi parsers node c)) \<noteq> None"
  by (auto simp: initApi_def Let_def split: option.splits promise.splits sum.splits)

lemma initApi_no_second_attempt:
  "initApiPromise c \<noteq> None \<Longrightarrow> snd (initApi parsers node c) = c"
  by (auto simp: initApi_def split: option.splits promise.splits)

lemma lookup_any:
  "lookupConstant parsers_any m moduleName constantName
     = (if moduleName = ''Babe'' then Some 6000 else Some 1)"
  by (simp add: parsers_any_def)

lemma initApi_no_version:
  "initApi parsers_any rpc_no_version new_client =
     (Settles (Inr ()),
      \<lparr>initApiPromise = Some (RejectedWith
          (Rejected ''Could not fetch runtime version from the node'')),
       metadata = Some (Metadata ()), runtimeVersion = None, expirationTime = 3000,
       initAttempts = 1\<rparr>)"
  by (simp add: initApi_def new_client_def rpc_no_version_def decode_blob_v12)

lemma initApi_healthy:
  "initApi parsers_any rpc_healthy new_client =
     (Settles (Inr ()),
      \<lparr>initApiPromise = Some Resolved, metadata = Some (Metadata ()), runtimeVersion = Some 30,
       expirationTime = 2000, initAttempts = 1\<rparr>)"
  by (simp add: initApi_def new_client_def rpc_healthy_def decode_blob_v12 lookup_any)

text \<open>
  C3. After a failed initialization the next call should start a fresh one. It does
  not: the first call on a new client, made while the runtime version cannot be fetched,
  leaves the rejected promise in \<^verbatim>\<open>initApiPromise\<close>; the second call, made when the node
  answers again, is rejected with the old failure and requests nothing (the number of
  attempts stays 1), while the same call on a new client succeeds.
\<close>

theorem initApi_failure_is_cached:
  "(case client_getExistentialDeposit parsers_any rpc_no_version new_client of (r1, c1) \<Rightarrow>
      case client_getExistentialDeposit parsers_any rpc_healthy c1 of (r2, c2) \<Rightarrow>
        r1 = Settles (Inr 1) \<and> initAttempts c1 = 1 \<and>
        r2 = Settles (Inl (Rejected ''Could not fetch runtime version from the node'')) \<and>
        initAttempts c2 = 1) \<and>
   fst (client_getExistentialDeposit parsers_any rpc_healthy new_client) = Settles (Inr 1)"
  by (simp add: client_getExistentialDeposit_def getConstant_def initApi_no_version
      initApi_healthy lookup_any)
     (simp add: initApi_def)

end
